theory Spec2Isabelle
  imports Complex_Main "HOL-Library.Sublist"
begin

section \<open>Python strings\<close>

text \<open>
  A Python \<open>str\<close> is a \<open>string\<close>. The operations below are the ones the client calls
  on output lines, on ASCII text: whitespace is the ASCII whitespace of \<open>str.strip\<close>
  (tab, line feed, vertical tab, form feed, carriage return, the separators 0x1C to 0x1F
  and the space), \<open>lower\<close> maps \<open>A\<close> to \<open>Z\<close>, and \<open>\d\<close> is \<open>0\<close> to \<open>9\<close>.
\<close>

text \<open>\<open>sub in s\<close>\<close>

fun py_in :: "string \<Rightarrow> string \<Rightarrow> bool" where
  "py_in sub [] = (sub = [])"
| "py_in sub (c # cs) = (if prefix sub (c # cs) then True else py_in sub cs)"

text \<open>\<open>s.startswith(p)\<close> and \<open>s.endswith(p)\<close>\<close>

definition startswith :: "string \<Rightarrow> string \<Rightarrow> bool" where
  "startswith s p = prefix p s"

definition endswith :: "string \<Rightarrow> string \<Rightarrow> bool" where
  "endswith s p = suffix p s"

definition is_space :: "char \<Rightarrow> bool" where
  "is_space c = (c \<in> set [CHR 0x09, CHR 0x0A, CHR 0x0B, CHR 0x0C, CHR 0x0D,
                           CHR 0x1C, CHR 0x1D, CHR 0x1E, CHR 0x1F, CHR 0x20])"

definition lstrip :: "string \<Rightarrow> string" where
  "lstrip s = dropWhile is_space s"

definition rstrip :: "string \<Rightarrow> string" where
  "rstrip s = rev (dropWhile is_space (rev s))"

definition strip :: "string \<Rightarrow> string" where
  "strip s = rstrip (lstrip s)"

definition lower_char :: "char \<Rightarrow> char" where
  "lower_char c =
     (case map_of (zip ''ABCDEFGHIJKLMNOPQRSTUVWXYZ'' ''abcdefghijklmnopqrstuvwxyz'') c of
        None \<Rightarrow> c
      | Some d \<Rightarrow> d)"

definition lower :: "string \<Rightarrow> string" where
  "lower s = map lower_char s"

text \<open>\<open>s.replace(c, "")\<close> for a one-character \<open>c\<close>\<close>

definition remove_char :: "char \<Rightarrow> string \<Rightarrow> string" where
  "remove_char c s = filter (\<lambda>x. x \<noteq> c) s"

text \<open>\<open>s.split(c)[-1]\<close> for a one-character \<open>c\<close>: the text after the last \<open>c\<close>, all of
  \<open>s\<close> when it has none.\<close>

definition split_last :: "char \<Rightarrow> string \<Rightarrow> string" where
  "split_last c s = rev (takeWhile (\<lambda>x. x \<noteq> c) (rev s))"

text \<open>\<open>s.split(c)\<close> for a one-character \<open>c\<close>\<close>

fun split_on :: "char \<Rightarrow> string \<Rightarrow> string list" where
  "split_on c [] = [[]]"
| "split_on c (x # xs) =
     (if x = c then [] # split_on c xs
      else (case split_on c xs of
              [] \<Rightarrow> [[x]]
            | w # ws \<Rightarrow> (x # w) # ws))"

text \<open>\<open>sep.join(xs)\<close>\<close>

fun join :: "string \<Rightarrow> string list \<Rightarrow> string" where
  "join sep [] = []"
| "join sep [x] = x"
| "join sep (x # y # ys) = x @ sep @ join sep (y # ys)"

definition is_digit :: "char \<Rightarrow> bool" where
  "is_digit c = (c \<in> set ''0123456789'')"

definition digit_value :: "char \<Rightarrow> nat" where
  "digit_value c = (case map_of (zip ''0123456789'' [0, 1, 2, 3, 4, 5, 6, 7, 8, 9]) c of
                      None \<Rightarrow> 0
                    | Some d \<Rightarrow> d)"

text \<open>The number a run of decimal digits denotes.\<close>

definition nat_of_digits :: "string \<Rightarrow> nat" where
  "nat_of_digits ds = foldl (\<lambda>n c. 10 * n + digit_value c) 0 ds"

text \<open>\<open>"{}".format(n)\<close> for an \<open>int\<close>: its decimal digits.\<close>

fun str_nat :: "nat \<Rightarrow> string" where
  "str_nat n =
     (if n < 10 then [''0123456789'' ! n]
      else str_nat (n div 10) @ [''0123456789'' ! (n mod 10)])"

definition str_int :: "int \<Rightarrow> string" where
  "str_int i = (if i < 0 then CHR ''-'' # str_nat (nat (- i)) else str_nat (nat i))"

text \<open>
  \<open>float(text)\<close> for a text \<open>digits.digits\<close>, as the exact decimal value; Python rounds this
  value to the nearest binary64, which is a function of it.
\<close>

definition py_float :: "string \<Rightarrow> rat" where
  "py_float text =
     (let ipart = takeWhile is_digit text; fpart = drop (length ipart + 1) text
      in of_nat (nat_of_digits ipart) + of_nat (nat_of_digits fpart) / 10 ^ length fpart)"

text \<open>
  \<open>re.match(r"(?P<percent_complete>\d+\.\d+) %,", line)\<close>, giving the text of the group:
  the match is anchored at the start of the line, and each digit run is maximal, since the
  pattern goes on with a character that is not a digit.
\<close>

definition percent_match :: "string \<Rightarrow> string option" where
  "percent_match line =
     (let ipart = takeWhile is_digit line in
      case dropWhile is_digit line of
        [] \<Rightarrow> None
      | c # rest \<Rightarrow>
          (let fpart = takeWhile is_digit rest in
           if c = CHR ''.'' \<and> ipart \<noteq> [] \<and> fpart \<noteq> []
              \<and> prefix '' %,'' (dropWhile is_digit rest)
           then Some (ipart @ ''.'' @ fpart)
           else None))"

section \<open>Value objects (\<open>azcopy_utilities.py\<close>)\<close>

record AzRemoteSASLocation =
  storage_account :: string
  container :: string
  path :: string
  use_wildcard :: bool
  sas_token :: string
  location_type :: "string option"

record AzLocalLocation =
  path :: string
  use_wildcard :: bool
  location_type :: "string option"

text \<open>\<open>Union[AzRemoteSASLocation, AzLocalLocation]\<close>\<close>

datatype location = Remote AzRemoteSASLocation | Local AzLocalLocation

text \<open>
  The SAS-expiry predicate \<open>is_sas_token_session_expired\<close> lives in a module of its own
  and reads the clock. Every function that calls it takes its answers at the time of the
  call as a parameter \<open>expired\<close>.
\<close>

text \<open>\<open>AzRemoteSASLocation.__init__\<close>: \<open>Inl\<close> is the message of the raised exception.\<close>

definition AzRemoteSASLocation_init ::
  "(string \<Rightarrow> bool) \<Rightarrow> string \<Rightarrow> string \<Rightarrow> string \<Rightarrow> bool \<Rightarrow> string \<Rightarrow> string option
     \<Rightarrow> string + AzRemoteSASLocation" where
  "AzRemoteSASLocation_init expired account cont p wildcard token ltype =
     (if length token > 0 \<and> expired token then Inl ''SAS token is expired''
      else Inr \<lparr>storage_account = account, container = cont,
                AzRemoteSASLocation.path = p, AzRemoteSASLocation.use_wildcard = wildcard,
                sas_token = token, AzRemoteSASLocation.location_type = ltype\<rparr>)"

definition get_resource_uri :: "AzRemoteSASLocation \<Rightarrow> string" where
  "get_resource_uri self =
     ''https://'' @ storage_account self @ ''.blob.core.windows.net/'' @ container self @ ''/''"

text \<open>\<open>AzRemoteSASLocation.__str__\<close>\<close>

definition AzRemoteSASLocation_str ::
  "(string \<Rightarrow> bool) \<Rightarrow> AzRemoteSASLocation \<Rightarrow> string + string" where
  "AzRemoteSASLocation_str expired self =
     (if length (sas_token self) > 0 \<and> expired (sas_token self)
      then Inl ''SAS token is expired''
      else Inr (get_resource_uri self @ AzRemoteSASLocation.path self
                @ (if AzRemoteSASLocation.use_wildcard self then ''*'' else '''')
                @ ''?'' @ sas_token self))"

text \<open>\<open>AzLocalLocation.__str__\<close>\<close>

definition AzLocalLocation_str :: "AzLocalLocation \<Rightarrow> string" where
  "AzLocalLocation_str self =
     AzLocalLocation.path self @ (if AzLocalLocation.use_wildcard self then ''*'' else '''')"

text \<open>\<open>str(loc)\<close> on either kind of location\<close>

fun location_str :: "(string \<Rightarrow> bool) \<Rightarrow> location \<Rightarrow> string + string" where
  "location_str expired (Remote r) = AzRemoteSASLocation_str expired r"
| "location_str expired (Local l) = Inr (AzLocalLocation_str l)"

text \<open>Truth value of an \<open>Optional[str]\<close>: neither \<open>None\<close> nor empty.\<close>

fun given :: "string option \<Rightarrow> bool" where
  "given None = False"
| "given (Some s) = (s \<noteq> [])"

record AzCopyOptions =
  overwrite_existing :: bool
  recursive :: bool
  put_md5 :: bool
  exclude_path :: string

definition AzCopyOptions_get_options_list :: "AzCopyOptions \<Rightarrow> string list" where
  "AzCopyOptions_get_options_list self =
     (if AzCopyOptions.recursive self then [''--recursive''] else [])
     @ (if \<not> overwrite_existing self then [''--overwrite'', ''false''] else [])
     @ (if AzCopyOptions.put_md5 self then [''--put-md5''] else [])
     @ (if length (AzCopyOptions.exclude_path self) > 0
        then [''--exclude-path'', AzCopyOptions.exclude_path self] else [])"

record AzSyncOptions =
  recursive :: bool
  put_md5 :: bool
  exclude_path :: string

definition AzSyncOptions_get_options_list :: "AzSyncOptions \<Rightarrow> string list" where
  "AzSyncOptions_get_options_list self =
     (if AzSyncOptions.recursive self then [''--recursive''] else [])
     @ (if AzSyncOptions.put_md5 self then [''--put-md5''] else [])
     @ (if length (AzSyncOptions.exclude_path self) > 0
        then [''--exclude-path'', AzSyncOptions.exclude_path self] else [])"

record AzListOptions =
  properties :: "string option"
  output_type :: string
  output_level :: "string option"
  machine_readable :: bool
  mega_units :: bool
  running_tally :: bool
  trailing_dot :: "string option"

definition AzListOptions_get_options_list :: "AzListOptions \<Rightarrow> string list" where
  "AzListOptions_get_options_list self =
     (if given (properties self)
      then [''--properties'', ''\"'' @ the (properties self) @ ''\"''] else [])
     @ (if output_type self \<noteq> ''text'' then [''--output-type'', output_type self] else [])
     @ (if given (output_level self) then [''--output-level'', the (output_level self)] else [])
     @ (if machine_readable self then [''--machine-readable''] else [])
     @ (if mega_units self then [''--mega-units''] else [])
     @ (if running_tally self then [''--running-tally''] else [])
     @ (if given (trailing_dot self) then [''--trailing-dot'', the (trailing_dot self)] else [])"

record AzRemoveOptions =
  recursive :: bool
  include_pattern :: "string option"
  exclude_pattern :: "string option"
  dry_run :: bool
  delete_snapshots :: "string option"
  list_of_files :: "string option"
  list_of_versions :: "string option"
  force_if_read_only :: bool
  permanent_delete :: bool
  include_after :: "string option"
  include_before :: "string option"

definition AzRemoveOptions_get_options_list :: "AzRemoveOptions \<Rightarrow> string list" where
  "AzRemoveOptions_get_options_list self =
     (if AzRemoveOptions.recursive self then [''--recursive''] else [])
     @ (if given (include_pattern self)
        then [''--include-pattern'', the (include_pattern self)] else [])
     @ (if given (exclude_pattern self)
        then [''--exclude-pattern'', the (exclude_pattern self)] else [])
     @ (if dry_run self then [''--dry-run''] else [])
     @ (if given (delete_snapshots self)
        then [''--delete-snapshots'', the (delete_snapshots self)] else [])
     @ (if given (list_of_files self) then [''--list-of-files'', the (list_of_files self)] else [])
     @ (if given (list_of_versions self)
        then [''--list-of-versions'', the (list_of_versions self)] else [])
     @ (if force_if_read_only self then [''--force-if-read-only''] else [])
     @ (if permanent_delete self then [''--permanent-delete''] else [])
     @ (if given (include_after self) then [''--include-after'', the (include_after self)] else [])
     @ (if given (include_before self)
        then [''--include-before'', the (include_before self)] else [])"

text \<open>
  The four job info classes are flat in the source. The fields they share, which is where
  all the client's decisions are taken, are declared once here and each class extends them.
\<close>

record JobInfo =
  error_msg :: string
  final_job_status_msg :: string
  completed :: bool

record ProgressJobInfo = JobInfo +
  percent_complete :: rat

record AzCopyJobInfo = ProgressJobInfo +
  number_of_file_transfers :: int
  number_of_folder_property_transfers :: int
  total_number_of_transfers :: int
  number_of_transfers_completed :: int
  number_of_transfers_failed :: int
  number_of_transfers_skipped :: int
  total_bytes_transferred :: int

definition AzCopyJobInfo_init :: AzCopyJobInfo where
  "AzCopyJobInfo_init =
     \<lparr>error_msg = '''', final_job_status_msg = '''', completed = False, percent_complete = 0,
      number_of_file_transfers = 0, number_of_folder_property_transfers = 0,
      total_number_of_transfers = 0, number_of_transfers_completed = 0,
      number_of_transfers_failed = 0, number_of_transfers_skipped = 0,
      total_bytes_transferred = 0\<rparr>"

section \<open>The collaborators of the client\<close>

text \<open>
  \<open>execute_command(cmd)\<close> runs the external program and yields its output lines; it raises
  when the program cannot start or exits abnormally. One run of it is the list of the lines
  it yields and, when it raises after them, the text of the exception.

  \<open>is_sas_token_session_expired\<close> compares a token's expiry with the clock, so an operation
  sees two samples of it: the one taken while the command is built
  (\<open>expired_on_entry\<close>) and the one taken in the handler of a failed run
  (\<open>expired_on_failure\<close>). \<open>path_exists\<close> is \<open>os.path.exists\<close>.

  The modules \<open>utils.execute_command\<close> and \<open>sas_token_validation\<close> are not among the
  sources. What they compute is left open: an operation takes their answers as the
  parameter \<open>e\<close>, and the predicate is taken to return a truth value for every token.
\<close>

record env =
  execute_command :: "string list \<Rightarrow> string list \<times> string option"
  expired_on_entry :: "string \<Rightarrow> bool"
  expired_on_failure :: "string \<Rightarrow> bool"
  path_exists :: "string \<Rightarrow> bool"

text \<open>What an operation does that a caller can observe besides its result: the commands it
  hands to the line source and the lines it echoes with \<open>print\<close>, in order.\<close>

datatype event = Spawn "string list" | Echo string

text \<open>
  An operation either returns its job info or raises \<open>Exception(message)\<close>. The job info a
  raising call had built, when it had built one, is kept beside the message.
\<close>

datatype 'j outcome = Returned 'j | Raised string "'j option"

record AzClient =
  exe_to_use :: string
  artefact_dir :: "string option"

text \<open>The local variables of the three streaming loops.\<close>

record 'j loop_state =
  job_info :: 'j
  summary :: string
  unlock_summary :: bool

section \<open>Summary parsers\<close>

text \<open>
  Modelled from the spec: the module \<open>azcopy_summary\<close> (\<open>get_transfer_copy_summary_info\<close>,
  \<open>get_sync_summary_info\<close>, \<open>get_remove_summary_info\<close>) is not among the sources. The
  operations below take the parser as a parameter \<open>parse\<close>; the definitions here follow
  the spec's words (labelled numeric fields, matched line by line, a missing or malformed
  field left as it was, never raising) with the labels of the tool's summary block, and
  serve as the concrete parser where one is needed.
\<close>

definition summary_value :: "string \<Rightarrow> string \<Rightarrow> int option" where
  "summary_value label text =
     (case List.find (prefix (label @ '':'')) (map strip (split_on CHR 0x0A text)) of
        None \<Rightarrow> None
      | Some l \<Rightarrow>
          (let v = strip (drop (length label + 1) l)
           in if v \<noteq> [] \<and> list_all is_digit v then Some (int (nat_of_digits v)) else None))"

definition summary_field :: "string \<Rightarrow> string \<Rightarrow> int \<Rightarrow> int" where
  "summary_field label text old = (case summary_value label text of None \<Rightarrow> old | Some v \<Rightarrow> v)"

definition get_transfer_copy_summary_info :: "AzCopyJobInfo \<Rightarrow> string \<Rightarrow> AzCopyJobInfo" where
  "get_transfer_copy_summary_info j text =
     j\<lparr>number_of_file_transfers :=
         summary_field ''Number of File Transfers'' text (number_of_file_transfers j),
       number_of_folder_property_transfers :=
         summary_field ''Number of Folder Property Transfers'' text
           (number_of_folder_property_transfers j),
       total_number_of_transfers :=
         summary_field ''Total Number of Transfers'' text (total_number_of_transfers j),
       number_of_transfers_completed :=
         summary_field ''Number of Transfers Completed'' text (number_of_transfers_completed j),
       number_of_transfers_failed :=
         summary_field ''Number of Transfers Failed'' text (number_of_transfers_failed j),
       number_of_transfers_skipped :=
         summary_field ''Number of Transfers Skipped'' text (number_of_transfers_skipped j),
       total_bytes_transferred :=
         summary_field ''TotalBytesTransferred'' text (total_bytes_transferred j)\<rparr>"

section \<open>Copy (\<open>AzClient._copy\<close>)\<close>

text \<open>The body of the \<open>for\<close> loop, for one output line.\<close>

definition copy_line :: "AzCopyJobInfo loop_state \<Rightarrow> string \<Rightarrow> AzCopyJobInfo loop_state" where
  "copy_line st output_line =
     (let j1 = (if py_in ''%'' output_line
                then (case percent_match output_line of
                        None \<Rightarrow> job_info st
                      | Some text \<Rightarrow> (job_info st)\<lparr>percent_complete := py_float text\<rparr>)
                else job_info st);
          s1 = (if unlock_summary st then summary st @ output_line else summary st);
          u1 = (if startswith output_line ''Job'' \<and> py_in ''summary'' output_line
                then True else unlock_summary st);
          j2 = (if py_in ''AuthenticationFailed'' output_line
                then j1\<lparr>error_msg := output_line\<rparr> else j1);
          j3 = (if py_in ''Final Job Status:'' output_line
                then j2\<lparr>final_job_status_msg := strip (split_last CHR '':'' output_line)\<rparr>
                else j2)
      in \<lparr>job_info = j3, summary = s1, unlock_summary = u1\<rparr>)"

text \<open>The loop over the lines the line source yields before it ends or raises.\<close>

definition copy_loop :: "string list \<Rightarrow> AzCopyJobInfo loop_state" where
  "copy_loop lines =
     foldl copy_line \<lparr>job_info = AzCopyJobInfo_init, summary = '''', unlock_summary = False\<rparr>
       lines"

text \<open>The token the handler of a failed run looks at.\<close>

fun copy_failure_token :: "location \<Rightarrow> location \<Rightarrow> string" where
  "copy_failure_token src (Remote d) = sas_token d"
| "copy_failure_token (Remote s) (Local d) = sas_token s"
| "copy_failure_token (Local s) (Local d) = ''''"

text \<open>The \<open>except\<close> clause: \<open>failure\<close> is the text of the exception the line source raised.\<close>

definition copy_except ::
  "env \<Rightarrow> location \<Rightarrow> location \<Rightarrow> string option \<Rightarrow> AzCopyJobInfo \<Rightarrow> AzCopyJobInfo" where
  "copy_except e src dest failure j =
     (case failure of
        None \<Rightarrow> j
      | Some text \<Rightarrow>
          j\<lparr>error_msg := (if expired_on_failure e (copy_failure_token src dest)
                           then ''SAS token is expired'' else text),
            completed := False\<rparr>)"

text \<open>The decision after the summary has been parsed.\<close>

definition copy_finalize :: "AzCopyJobInfo \<Rightarrow> AzCopyJobInfo outcome" where
  "copy_finalize j =
     (if final_job_status_msg j = ''Completed''
         \<or> final_job_status_msg j = ''CompletedWithSkipped''
      then Returned (j\<lparr>completed := True\<rparr>)
      else if number_of_transfers_failed j > 0
      then (let j' = j\<lparr>error_msg := error_msg j @ ''; Tranfers failed = ''
                                      @ str_int (number_of_transfers_failed j),
                        completed := False\<rparr>
            in Raised (error_msg j') (Some j'))
      else (let j' = j\<lparr>error_msg := error_msg j @ ''; Error while transferring data'',
                        completed := False\<rparr>
            in Raised (error_msg j') (Some j')))"

text \<open>\<open>AzClient._copy\<close>: \<open>str(src)\<close> and \<open>str(dest)\<close> may raise while the command is built.\<close>

definition AzClient_copy ::
  "env \<Rightarrow> (AzCopyJobInfo \<Rightarrow> string \<Rightarrow> AzCopyJobInfo) \<Rightarrow> AzClient \<Rightarrow> location \<Rightarrow> location
     \<Rightarrow> AzCopyOptions \<Rightarrow> event list \<times> AzCopyJobInfo outcome" where
  "AzClient_copy e parse self src dest transfer_options =
     (case location_str (expired_on_entry e) src of
        Inl msg \<Rightarrow> ([], Raised msg None)
      | Inr s \<Rightarrow>
          (case location_str (expired_on_entry e) dest of
             Inl msg \<Rightarrow> ([], Raised msg None)
           | Inr d \<Rightarrow>
               (let cmd = [exe_to_use self, ''cp'', s, d]
                            @ AzCopyOptions_get_options_list transfer_options;
                    (lines, failure) = execute_command e cmd;
                    st = copy_loop lines;
                    j = copy_except e src dest failure (job_info st)
                in (Spawn cmd # map Echo lines, copy_finalize (parse j (summary st))))))"

section \<open>Sync (\<open>AzClient._sync\<close>)\<close>

record AzSyncJobInfo = ProgressJobInfo +
  files_scanned_at_source :: int
  files_scanned_at_destination :: int
  number_of_copy_transfers_for_files :: int
  number_of_copy_transfers_for_folder_properties :: int
  number_of_folder_property_transfers :: int
  total_number_of_copy_transfers :: int
  number_of_copy_transfers_completed :: int
  number_of_copy_transfers_failed :: int
  number_of_deletions_at_destination :: int
  total_number_of_bytes_transferred :: int
  total_number_of_bytes_enumerated :: int

definition AzSyncJobInfo_init :: AzSyncJobInfo where
  "AzSyncJobInfo_init =
     \<lparr>error_msg = '''', final_job_status_msg = '''', completed = False, percent_complete = 0,
      files_scanned_at_source = 0, files_scanned_at_destination = 0,
      number_of_copy_transfers_for_files = 0,
      number_of_copy_transfers_for_folder_properties = 0,
      number_of_folder_property_transfers = 0, total_number_of_copy_transfers = 0,
      number_of_copy_transfers_completed = 0, number_of_copy_transfers_failed = 0,
      number_of_deletions_at_destination = 0, total_number_of_bytes_transferred = 0,
      total_number_of_bytes_enumerated = 0\<rparr>"

text \<open>Modelled from the spec: \<open>get_sync_summary_info\<close> of the absent module
  \<open>azcopy_summary\<close>, as \<open>get_transfer_copy_summary_info\<close> above. The summary text it gets
  has lost its parentheses.\<close>

definition get_sync_summary_info :: "AzSyncJobInfo \<Rightarrow> string \<Rightarrow> AzSyncJobInfo" where
  "get_sync_summary_info j text =
     j\<lparr>files_scanned_at_source :=
         summary_field ''Files Scanned at Source'' text (files_scanned_at_source j),
       files_scanned_at_destination :=
         summary_field ''Files Scanned at Destination'' text (files_scanned_at_destination j),
       number_of_copy_transfers_for_files :=
         summary_field ''Number of Copy Transfers for Files'' text
           (number_of_copy_transfers_for_files j),
       number_of_copy_transfers_for_folder_properties :=
         summary_field ''Number of Copy Transfers for Folder Properties'' text
           (number_of_copy_transfers_for_folder_properties j),
       total_number_of_copy_transfers :=
         summary_field ''Total Number of Copy Transfers'' text (total_number_of_copy_transfers j),
       number_of_copy_transfers_completed :=
         summary_field ''Number of Copy Transfers Completed'' text
           (number_of_copy_transfers_completed j),
       number_of_copy_transfers_failed :=
         summary_field ''Number of Copy Transfers Failed'' text
           (number_of_copy_transfers_failed j),
       number_of_deletions_at_destination :=
         summary_field ''Number of Deletions at Destination'' text
           (number_of_deletions_at_destination j),
       total_number_of_bytes_transferred :=
         summary_field ''Total Number of Bytes Transferred'' text
           (total_number_of_bytes_transferred j),
       total_number_of_bytes_enumerated :=
         summary_field ''Total Number of Bytes Enumerated'' text
           (total_number_of_bytes_enumerated j)\<rparr>"

text \<open>The body of the \<open>for\<close> loop, for one output line.\<close>

definition sync_line :: "AzSyncJobInfo loop_state \<Rightarrow> string \<Rightarrow> AzSyncJobInfo loop_state" where
  "sync_line st output_line =
     (let j1 = (if py_in ''%'' output_line
                then (case percent_match output_line of
                        None \<Rightarrow> job_info st
                      | Some text \<Rightarrow> (job_info st)\<lparr>percent_complete := py_float text\<rparr>)
                else job_info st);
          s1 = (if unlock_summary st
                then summary st @ remove_char CHR '')'' (remove_char CHR ''('' output_line)
                else summary st);
          output_line_cleaned = lower (strip output_line);
          u1 = (if startswith output_line_cleaned ''job'' \<and> py_in ''summary'' output_line_cleaned
                then True else unlock_summary st);
          j2 = (if py_in ''AuthenticationFailed'' output_line
                then j1\<lparr>error_msg := output_line\<rparr> else j1);
          j3 = (if py_in ''Final Job Status:'' output_line
                then j2\<lparr>final_job_status_msg := strip (split_last CHR '':'' output_line)\<rparr>
                else j2)
      in \<lparr>job_info = j3, summary = s1, unlock_summary = u1\<rparr>)"

definition sync_loop :: "string list \<Rightarrow> AzSyncJobInfo loop_state" where
  "sync_loop lines =
     foldl sync_line \<lparr>job_info = AzSyncJobInfo_init, summary = '''', unlock_summary = False\<rparr>
       lines"

text \<open>The \<open>except\<close> clause only clears \<open>completed\<close>.\<close>

definition sync_except :: "string option \<Rightarrow> AzSyncJobInfo \<Rightarrow> AzSyncJobInfo" where
  "sync_except failure j = (case failure of None \<Rightarrow> j | Some text \<Rightarrow> j\<lparr>completed := False\<rparr>)"

definition sync_finalize :: "AzSyncJobInfo \<Rightarrow> AzSyncJobInfo outcome" where
  "sync_finalize j =
     (if final_job_status_msg j = ''Completed''
         \<or> final_job_status_msg j = ''CompletedWithSkipped''
      then Returned (j\<lparr>completed := True\<rparr>)
      else if number_of_copy_transfers_failed j > 0
      then (let j' = j\<lparr>error_msg := error_msg j @ ''; Tranfers failed = ''
                                      @ str_int (number_of_copy_transfers_failed j),
                        completed := False\<rparr>
            in Raised (error_msg j') (Some j'))
      else (let j' = j\<lparr>error_msg := error_msg j @ ''; Error while transferring data'',
                        completed := False\<rparr>
            in Raised (error_msg j') (Some j')))"

definition AzClient_sync ::
  "env \<Rightarrow> (AzSyncJobInfo \<Rightarrow> string \<Rightarrow> AzSyncJobInfo) \<Rightarrow> AzClient \<Rightarrow> location \<Rightarrow> location
     \<Rightarrow> AzSyncOptions \<Rightarrow> event list \<times> AzSyncJobInfo outcome" where
  "AzClient_sync e parse self src dest transfer_options =
     (case location_str (expired_on_entry e) src of
        Inl msg \<Rightarrow> ([], Raised msg None)
      | Inr s \<Rightarrow>
          (case location_str (expired_on_entry e) dest of
             Inl msg \<Rightarrow> ([], Raised msg None)
           | Inr d \<Rightarrow>
               (let cmd = [exe_to_use self, ''sync'', s, d]
                            @ AzSyncOptions_get_options_list transfer_options;
                    (lines, failure) = execute_command e cmd;
                    st = sync_loop lines;
                    j = sync_except failure (job_info st)
                in (Spawn cmd # map Echo lines, sync_finalize (parse j (summary st))))))"

text \<open>\<open>sync_to_local_location\<close> and \<open>sync_to_remote_location\<close>: the local side of the pair
  has to exist before anything else is done.\<close>

definition sync_to_local_location ::
  "env \<Rightarrow> (AzSyncJobInfo \<Rightarrow> string \<Rightarrow> AzSyncJobInfo) \<Rightarrow> AzClient \<Rightarrow> AzRemoteSASLocation
     \<Rightarrow> AzLocalLocation \<Rightarrow> AzSyncOptions \<Rightarrow> event list \<times> AzSyncJobInfo outcome" where
  "sync_to_local_location e parse self src dest transfer_options =
     (if \<not> path_exists e (AzLocalLocation.path dest)
      then ([], Raised (AzLocalLocation.path dest
                         @ '' does not exist. For sync operation, the given path needs to exist'')
                  None)
      else AzClient_sync e parse self (Remote src) (Local dest) transfer_options)"

definition sync_to_remote_location ::
  "env \<Rightarrow> (AzSyncJobInfo \<Rightarrow> string \<Rightarrow> AzSyncJobInfo) \<Rightarrow> AzClient \<Rightarrow> AzLocalLocation
     \<Rightarrow> AzRemoteSASLocation \<Rightarrow> AzSyncOptions \<Rightarrow> event list \<times> AzSyncJobInfo outcome" where
  "sync_to_remote_location e parse self src dest transfer_options =
     (if \<not> path_exists e (AzLocalLocation.path src)
      then ([], Raised (AzLocalLocation.path src
                         @ '' does not exist. For sync operation, the given path needs to exist'')
                  None)
      else AzClient_sync e parse self (Local src) (Remote dest) transfer_options)"

section \<open>Remove (\<open>AzClient._remove\<close>)\<close>

record AzRemoveJobInfo = ProgressJobInfo +
  number_of_files_removed :: int
  number_of_folders_removed :: int
  total_number_of_removals :: int
  number_of_removals_completed :: int
  number_of_removals_failed :: int
  number_of_removals_skipped :: int
  total_bytes_removed :: int

definition AzRemoveJobInfo_init :: AzRemoveJobInfo where
  "AzRemoveJobInfo_init =
     \<lparr>error_msg = '''', final_job_status_msg = '''', completed = False, percent_complete = 0,
      number_of_files_removed = 0, number_of_folders_removed = 0, total_number_of_removals = 0,
      number_of_removals_completed = 0, number_of_removals_failed = 0,
      number_of_removals_skipped = 0, total_bytes_removed = 0\<rparr>"

text \<open>Modelled from the spec: \<open>get_remove_summary_info\<close> of the absent module
  \<open>azcopy_summary\<close>, as \<open>get_transfer_copy_summary_info\<close> above; the tool reports a removal
  job with the labels of a transfer job.\<close>

definition get_remove_summary_info :: "AzRemoveJobInfo \<Rightarrow> string \<Rightarrow> AzRemoveJobInfo" where
  "get_remove_summary_info j text =
     j\<lparr>number_of_files_removed :=
         summary_field ''Number of File Transfers'' text (number_of_files_removed j),
       number_of_folders_removed :=
         summary_field ''Number of Folder Property Transfers'' text (number_of_folders_removed j),
       total_number_of_removals :=
         summary_field ''Total Number of Transfers'' text (total_number_of_removals j),
       number_of_removals_completed :=
         summary_field ''Number of Transfers Completed'' text (number_of_removals_completed j),
       number_of_removals_failed :=
         summary_field ''Number of Transfers Failed'' text (number_of_removals_failed j),
       number_of_removals_skipped :=
         summary_field ''Number of Transfers Skipped'' text (number_of_removals_skipped j),
       total_bytes_removed :=
         summary_field ''TotalBytesTransferred'' text (total_bytes_removed j)\<rparr>"

text \<open>The body of the \<open>for\<close> loop, for one output line.\<close>

definition remove_line ::
  "AzRemoveJobInfo loop_state \<Rightarrow> string \<Rightarrow> AzRemoveJobInfo loop_state" where
  "remove_line st output_line =
     (let j1 = (if py_in ''%'' output_line
                then (case percent_match output_line of
                        None \<Rightarrow> job_info st
                      | Some text \<Rightarrow> (job_info st)\<lparr>percent_complete := py_float text\<rparr>)
                else job_info st);
          s1 = (if unlock_summary st then summary st @ output_line else summary st);
          u1 = (if startswith output_line ''Job'' \<and> py_in ''summary'' output_line
                then True else unlock_summary st);
          j2 = (if py_in ''AuthenticationFailed'' output_line
                then j1\<lparr>error_msg := output_line\<rparr> else j1);
          j3 = (if py_in ''Final Job Status:'' output_line
                then j2\<lparr>final_job_status_msg := strip (split_last CHR '':'' output_line)\<rparr>
                else j2)
      in \<lparr>job_info = j3, summary = s1, unlock_summary = u1\<rparr>)"

definition remove_loop :: "string list \<Rightarrow> AzRemoveJobInfo loop_state" where
  "remove_loop lines =
     foldl remove_line \<lparr>job_info = AzRemoveJobInfo_init, summary = '''', unlock_summary = False\<rparr>
       lines"

text \<open>The \<open>except\<close> clause: \<open>failure\<close> is the text of the exception the line source raised.\<close>

definition remove_except ::
  "env \<Rightarrow> AzRemoteSASLocation \<Rightarrow> string option \<Rightarrow> AzRemoveJobInfo \<Rightarrow> AzRemoveJobInfo" where
  "remove_except e location failure j =
     (case failure of
        None \<Rightarrow> j
      | Some text \<Rightarrow>
          j\<lparr>error_msg := (if expired_on_failure e (sas_token location)
                           then ''SAS token is expired'' else text),
            completed := False\<rparr>)"

definition remove_finalize :: "AzRemoveJobInfo \<Rightarrow> AzRemoveJobInfo outcome" where
  "remove_finalize j =
     (if final_job_status_msg j = ''Completed''
         \<or> final_job_status_msg j = ''CompletedWithSkipped''
      then Returned (j\<lparr>completed := True\<rparr>)
      else if number_of_removals_failed j > 0
      then (let j' = j\<lparr>error_msg := error_msg j @ ''; Removals failed = ''
                                      @ str_int (number_of_removals_failed j),
                        completed := False\<rparr>
            in Raised (error_msg j') (Some j'))
      else (let j' = j\<lparr>error_msg := error_msg j @ ''; Error while removing data'',
                        completed := False\<rparr>
            in Raised (error_msg j') (Some j')))"

definition AzClient_remove ::
  "env \<Rightarrow> (AzRemoveJobInfo \<Rightarrow> string \<Rightarrow> AzRemoveJobInfo) \<Rightarrow> AzClient \<Rightarrow> AzRemoteSASLocation
     \<Rightarrow> AzRemoveOptions \<Rightarrow> event list \<times> AzRemoveJobInfo outcome" where
  "AzClient_remove e parse self location remove_options =
     (case AzRemoteSASLocation_str (expired_on_entry e) location of
        Inl msg \<Rightarrow> ([], Raised msg None)
      | Inr l \<Rightarrow>
          (let cmd = [exe_to_use self, ''remove'', l]
                       @ AzRemoveOptions_get_options_list remove_options;
               (lines, failure) = execute_command e cmd;
               st = remove_loop lines;
               j = remove_except e location failure (job_info st)
           in (Spawn cmd # map Echo lines, remove_finalize (parse j (summary st)))))"

text \<open>
  \<open>remove_directory_recursive\<close> assigns to a field of the options object it was given. The
  object is the caller's, so the call is a function of it that also gives back the object
  as the call leaves it.
\<close>

definition remove_directory_recursive ::
  "env \<Rightarrow> (AzRemoveJobInfo \<Rightarrow> string \<Rightarrow> AzRemoveJobInfo) \<Rightarrow> AzClient \<Rightarrow> AzRemoteSASLocation
     \<Rightarrow> AzRemoveOptions \<Rightarrow> AzRemoveOptions \<times> event list \<times> AzRemoveJobInfo outcome" where
  "remove_directory_recursive e parse self location remove_options =
     (let remove_options' = remove_options\<lparr>AzRemoveOptions.recursive := True\<rparr>
      in (remove_options', AzClient_remove e parse self location remove_options'))"

text \<open>\<open>remove_from_remote_location\<close> and \<open>remove_single_blob\<close> pass the options on as they
  are.\<close>

definition remove_from_remote_location ::
  "env \<Rightarrow> (AzRemoveJobInfo \<Rightarrow> string \<Rightarrow> AzRemoveJobInfo) \<Rightarrow> AzClient \<Rightarrow> AzRemoteSASLocation
     \<Rightarrow> AzRemoveOptions \<Rightarrow> AzRemoveOptions \<times> event list \<times> AzRemoveJobInfo outcome" where
  "remove_from_remote_location e parse self location remove_options =
     (remove_options, AzClient_remove e parse self location remove_options)"

section \<open>List (\<open>AzClient._list\<close>)\<close>

text \<open>
  The values \<open>json.loads\<close> yields: \<open>None\<close>, \<open>bool\<close>, \<open>int\<close>, \<open>float\<close> (kept as the exact
  value of its literal), \<open>str\<close>, \<open>list\<close> and \<open>dict\<close> (its items in insertion order, every
  key once).
\<close>

datatype json =
    JNull
  | JBool bool
  | JInt int
  | JFloat rat
  | JString string
  | JArray "json list"
  | JObject "(string \<times> json) list"

text \<open>\<open>d.get(key)\<close>: \<open>None\<close> when the key is absent.\<close>

definition dict_get :: "(string \<times> json) list \<Rightarrow> string \<Rightarrow> json option" where
  "dict_get d key = map_of d key"

text \<open>The truth value Python gives a decoded value in \<open>if message_content:\<close>.\<close>

fun truthy :: "json \<Rightarrow> bool" where
  "truthy JNull = False"
| "truthy (JBool b) = b"
| "truthy (JInt i) = (i \<noteq> 0)"
| "truthy (JFloat x) = (x \<noteq> 0)"
| "truthy (JString s) = (s \<noteq> [])"
| "truthy (JArray xs) = (xs \<noteq> [])"
| "truthy (JObject d) = (d \<noteq> [])"

record AzListJobInfo = JobInfo +
  output_text :: string
  items :: "json list"

definition AzListJobInfo_init :: AzListJobInfo where
  "AzListJobInfo_init =
     \<lparr>error_msg = '''', final_job_status_msg = '''', completed = False,
      output_text = '''', items = []\<rparr>"

text \<open>
  What a call of \<open>json.loads\<close> on a \<open>str\<close> can do: return the decoded value, raise
  \<open>JSONDecodeError\<close>, or raise some other exception (\<open>RecursionError\<close> on text nested too
  deeply, \<open>ValueError\<close> on an integer with more digits than the interpreter converts). The
  client catches the two kinds of exception in different places, so the decoder is a
  parameter \<open>loads\<close> with a result of this type.
\<close>

datatype loaded = Loaded json | JSONDecodeError | OtherException

text \<open>What one pass through the body of the inner \<open>for\<close> loop does to \<open>items\<close>.\<close>

datatype step = Continue "json list" | Unexpected

text \<open>
  \<open>Unexpected\<close> is an exception other than \<open>JSONDecodeError\<close>, which leaves the loop for the
  outer \<open>except Exception: pass\<close>: \<open>json.loads\<close> itself raises one, on the line or on the
  text of \<open>MessageContent\<close>; \<open>json.loads(message_content)\<close> raises \<open>TypeError\<close> on a value
  that is not a string; and \<open>.get\<close> is no attribute of a decoded value that is not a \<open>dict\<close>.
\<close>

definition list_item :: "(string \<Rightarrow> loaded) \<Rightarrow> json list \<Rightarrow> string \<Rightarrow> step" where
  "list_item loads acc raw =
     (let line = strip raw in
      if line \<noteq> [] \<and> startswith line ''{'' \<and> endswith line ''}''
      then (case loads line of
              JSONDecodeError \<Rightarrow> Continue acc
            | OtherException \<Rightarrow> Unexpected
            | Loaded (JObject json_obj) \<Rightarrow>
                if dict_get json_obj ''MessageType'' = Some (JString ''ListObject'')
                then (let message_content =
                            (case dict_get json_obj ''MessageContent'' of
                               None \<Rightarrow> JString ''''
                             | Some v \<Rightarrow> v)
                      in if truthy message_content
                         then (case message_content of
                                 JString text \<Rightarrow>
                                   (case loads text of
                                      JSONDecodeError \<Rightarrow> Continue acc
                                    | OtherException \<Rightarrow> Unexpected
                                    | Loaded file_info \<Rightarrow> Continue (acc @ [file_info]))
                               | _ \<Rightarrow> Unexpected)
                         else Continue acc)
                else if dict_get json_obj ''MessageType'' \<noteq> Some (JString ''EndOfJob'')
                then Continue (acc @ [JObject json_obj])
                else Continue acc
            | Loaded _ \<Rightarrow> Unexpected)
      else Continue acc)"

text \<open>The inner \<open>for\<close> loop: \<open>None\<close> when an unexpected exception left it.\<close>

fun list_items :: "(string \<Rightarrow> loaded) \<Rightarrow> json list \<Rightarrow> string list \<Rightarrow> json list option" where
  "list_items loads acc [] = Some acc"
| "list_items loads acc (line # rest) =
     (case list_item loads acc line of
        Unexpected \<Rightarrow> None
      | Continue acc' \<Rightarrow> list_items loads acc' rest)"

text \<open>
  The \<open>if list_options.output_type == "json"\<close> block: \<open>job_info.items\<close> is assigned after
  the loop, so the outer \<open>except Exception: pass\<close> leaves it as it was.
\<close>

definition list_decode ::
  "(string \<Rightarrow> loaded) \<Rightarrow> AzListOptions \<Rightarrow> string list \<Rightarrow> AzListJobInfo \<Rightarrow> AzListJobInfo" where
  "list_decode loads list_options output_lines j =
     (if output_type list_options = ''json''
      then (case list_items loads [] output_lines of
              None \<Rightarrow> j
            | Some xs \<Rightarrow> j\<lparr>items := xs\<rparr>)
      else j)"

text \<open>
  The outer \<open>for\<close> loop: the lines it consumes, and the line on which it raised when one
  contained \<open>AuthenticationFailed\<close>. The lines after that one are never asked for.
\<close>

fun list_consume :: "string list \<Rightarrow> string list \<times> string option" where
  "list_consume [] = ([], None)"
| "list_consume (output_line # rest) =
     (if py_in ''AuthenticationFailed'' output_line then ([output_line], Some output_line)
      else (let (consumed, failed) = list_consume rest in (output_line # consumed, failed)))"

text \<open>The handler \<open>except Exception as e\<close> of the outer \<open>try\<close>, \<open>text\<close> being \<open>str(e)\<close>.\<close>

definition list_except :: "string \<Rightarrow> AzListJobInfo \<Rightarrow> AzListJobInfo outcome" where
  "list_except text j =
     (let j' = j\<lparr>error_msg := (if error_msg j = '''' then text else error_msg j),
                  completed := False\<rparr>
      in Raised (error_msg j') (Some j'))"

definition AzClient_list ::
  "env \<Rightarrow> (string \<Rightarrow> loaded) \<Rightarrow> AzClient \<Rightarrow> AzRemoteSASLocation \<Rightarrow> AzListOptions
     \<Rightarrow> event list \<times> AzListJobInfo outcome" where
  "AzClient_list e loads self location list_options =
     (case AzRemoteSASLocation_str (expired_on_entry e) location of
        Inl msg \<Rightarrow> ([], Raised msg None)
      | Inr l \<Rightarrow>
          (let cmd = [exe_to_use self, ''list'', l] @ AzListOptions_get_options_list list_options;
               (lines, failure) = execute_command e cmd;
               (consumed, failed) = list_consume lines;
               output_lines = map rstrip consumed
           in (Spawn cmd # map Echo consumed,
               (case failed of
                  Some output_line \<Rightarrow>
                    list_except output_line
                      (AzListJobInfo_init\<lparr>error_msg := output_line, completed := False\<rparr>)
                | None \<Rightarrow>
                    (case failure of
                       Some text \<Rightarrow> list_except text AzListJobInfo_init
                     | None \<Rightarrow>
                         Returned
                           ((list_decode loads list_options output_lines
                               (AzListJobInfo_init\<lparr>output_text :=
                                  join [CHR 0x0A] output_lines\<rparr>))
                            \<lparr>completed := True, final_job_status_msg := ''Completed''\<rparr>))))))"

text \<open>The items of a returned listing.\<close>

definition returned_items :: "AzListJobInfo outcome \<Rightarrow> json list option" where
  "returned_items r = (case r of Returned j \<Rightarrow> Some (items j) | Raised m j \<Rightarrow> None)"

text \<open>
  A line on which the inner loop is left by an exception other than \<open>JSONDecodeError\<close>,
  said without the loop: the line has the shape of an object and either the decoder raises
  such an exception on it, or it decodes to a value that is no object, or it decodes to a
  \<open>ListObject\<close> whose \<open>MessageContent\<close> is truthy and is either no string or a string on
  which the decoder raises such an exception.
\<close>

definition unexpected_line :: "(string \<Rightarrow> loaded) \<Rightarrow> string \<Rightarrow> bool" where
  "unexpected_line loads raw =
     (let line = strip raw in
      startswith line ''{'' \<and> endswith line ''}''
      \<and> (case loads line of
            JSONDecodeError \<Rightarrow> False
          | OtherException \<Rightarrow> True
          | Loaded v \<Rightarrow>
              (case v of
                 JObject obj \<Rightarrow>
                   dict_get obj ''MessageType'' = Some (JString ''ListObject'')
                   \<and> (case dict_get obj ''MessageContent'' of
                         None \<Rightarrow> False
                       | Some content \<Rightarrow>
                           truthy content
                           \<and> (case content of
                                 JString text \<Rightarrow> loads text = OtherException
                               | _ \<Rightarrow> True))
               | _ \<Rightarrow> True)))"

text \<open>
  What one line contributes to \<open>items\<close> in the words of the specification, each line decoded
  on its own: a \<open>ListObject\<close> contributes its \<open>MessageContent\<close> decoded again, any other
  object but \<open>EndOfJob\<close> contributes itself, and \<open>EndOfJob\<close> objects and lines that are no
  complete JSON object contribute nothing.
\<close>

definition spec_line_items :: "(string \<Rightarrow> loaded) \<Rightarrow> string \<Rightarrow> json list" where
  "spec_line_items loads raw =
     (let line = strip raw in
      if startswith line ''{'' \<and> endswith line ''}''
      then (case loads line of
              Loaded (JObject obj) \<Rightarrow>
                if dict_get obj ''MessageType'' = Some (JString ''ListObject'')
                then (case dict_get obj ''MessageContent'' of
                        Some (JString text) \<Rightarrow>
                          (case loads text of Loaded file_info \<Rightarrow> [file_info] | _ \<Rightarrow> [])
                      | _ \<Rightarrow> [])
                else if dict_get obj ''MessageType'' = Some (JString ''EndOfJob'') then []
                else [JObject obj]
            | _ \<Rightarrow> [])
      else [])"

section \<open>A decoder for JSON text\<close>

text \<open>
  \<open>json.loads\<close> belongs to Python's library. \<open>AzClient_list\<close> takes it as a parameter; the
  decoder below follows the grammar \<open>json.loads\<close> accepts by default (strict strings, no
  hooks) and is what a concrete run uses. A \<open>\u\<close> escape above 007F comes out as the UTF-8
  bytes of its character. The literals \<open>NaN\<close>, \<open>Infinity\<close> and \<open>-Infinity\<close>, which Python
  turns into floats that are no numbers, are not accepted here. The recursion is bounded by a
  counter that starts above the length of the text; every call that uses one unit of it
  has read at least one character.
\<close>

definition skip_ws :: "string \<Rightarrow> string" where
  "skip_ws s = dropWhile (\<lambda>c. c \<in> set [CHR 0x20, CHR 0x09, CHR 0x0A, CHR 0x0D]) s"

definition hex_value :: "char \<Rightarrow> nat option" where
  "hex_value c =
     map_of (zip ''0123456789abcdefABCDEF''
               [0, 1, 2, 3, 4, 5, 6, 7, 8, 9, 10, 11, 12, 13, 14, 15, 10, 11, 12, 13, 14, 15]) c"

text \<open>The four hexadecimal digits of a \<open>\u\<close> escape.\<close>

definition hex4 :: "string \<Rightarrow> nat option" where
  "hex4 s =
     (case map hex_value (take 4 s) of
        [Some a, Some b, Some c, Some d] \<Rightarrow> Some (((a * 16 + b) * 16 + c) * 16 + d)
      | _ \<Rightarrow> None)"

definition utf8 :: "nat \<Rightarrow> string" where
  "utf8 cp =
     (if cp < 128 then [char_of cp]
      else if cp < 2048 then [char_of (192 + cp div 64), char_of (128 + cp mod 64)]
      else if cp < 65536
      then [char_of (224 + cp div 4096), char_of (128 + cp div 64 mod 64),
            char_of (128 + cp mod 64)]
      else [char_of (240 + cp div 262144), char_of (128 + cp div 4096 mod 64),
            char_of (128 + cp div 64 mod 64), char_of (128 + cp mod 64)])"

definition simple_escape :: "char \<Rightarrow> char option" where
  "simple_escape c =
     map_of [(CHR 0x22, CHR 0x22), (CHR 0x5C, CHR 0x5C), (CHR ''/'', CHR ''/''),
             (CHR ''b'', CHR 0x08), (CHR ''f'', CHR 0x0C), (CHR ''n'', CHR 0x0A),
             (CHR ''r'', CHR 0x0D), (CHR ''t'', CHR 0x09)] c"

text \<open>A string literal after its opening quote: the decoded text and what follows the
  closing quote.\<close>

fun scan_string :: "nat \<Rightarrow> string \<Rightarrow> (string \<times> string) option" where
  "scan_string 0 s = None"
| "scan_string (Suc n) [] = None"
| "scan_string (Suc n) (c # r) =
     (if c = CHR 0x22 then Some ([], r)
      else if c = CHR 0x5C
      then (case r of
              [] \<Rightarrow> None
            | x # r1 \<Rightarrow>
                if x = CHR ''u''
                then (case hex4 r1 of
                        None \<Rightarrow> None
                      | Some hi \<Rightarrow>
                          (let r2 = drop 4 r1;
                               lo = (if 55296 \<le> hi \<and> hi < 56320 \<and> prefix [CHR 0x5C, CHR ''u''] r2
                                     then hex4 (drop 2 r2) else None);
                               paired = (case lo of
                                           None \<Rightarrow> False
                                         | Some l \<Rightarrow> 56320 \<le> l \<and> l < 57344);
                               cp = (if paired
                                     then 65536 + (hi - 55296) * 1024 + (the lo - 56320)
                                     else hi);
                               r3 = (if paired then drop 6 r2 else r2)
                           in map_option (\<lambda>(t, r'). (utf8 cp @ t, r')) (scan_string n r3)))
                else (case simple_escape x of
                        None \<Rightarrow> None
                      | Some y \<Rightarrow> map_option (\<lambda>(t, r'). (y # t, r')) (scan_string n r1)))
      else if of_char c < (32 :: nat) then None
      else map_option (\<lambda>(t, r'). (c # t, r')) (scan_string n r))"

text \<open>A number: \<open>-?(0|[1-9]\d*)(\.\d+)?([eE][-+]?\d+)?\<close>, an \<open>int\<close> when it has neither
  fraction nor exponent.\<close>

definition scan_number :: "string \<Rightarrow> (json \<times> string) option" where
  "scan_number s =
     (let neg = prefix ''-'' s;
          s1 = (if neg then drop 1 s else s);
          ds = takeWhile is_digit s1;
          ipart = (if prefix ''0'' ds then ''0'' else ds);
          s2 = drop (length ipart) s1;
          fpart = (if prefix ''.'' s2 then takeWhile is_digit (drop 1 s2) else []);
          s3 = (if fpart = [] then s2 else drop (length fpart + 1) s2);
          e1 = (if prefix ''e'' s3 \<or> prefix ''E'' s3 then drop 1 s3 else []);
          eneg = prefix ''-'' e1;
          e2 = (if prefix ''-'' e1 \<or> prefix ''+'' e1 then drop 1 e1 else e1);
          edigits = takeWhile is_digit e2;
          s4 = (if edigits = [] then s3 else dropWhile is_digit e2);
          sign = (if neg then - 1 else 1)
      in if ipart = [] then None
         else if fpart = [] \<and> edigits = []
         then Some (JInt (sign * int (nat_of_digits ipart)), s4)
         else (let m = of_nat (nat_of_digits ipart)
                         + of_nat (nat_of_digits fpart) / 10 ^ length fpart;
                   x = (if eneg then m / 10 ^ nat_of_digits edigits
                        else m * 10 ^ nat_of_digits edigits)
               in Some (JFloat (of_int sign * x), s4)))"

text \<open>\<open>dict[key] = value\<close> while an object is read: a repeated key keeps its place and
  takes the later value.\<close>

fun dict_set :: "(string \<times> json) list \<Rightarrow> string \<Rightarrow> json \<Rightarrow> (string \<times> json) list" where
  "dict_set [] key v = [(key, v)]"
| "dict_set ((k, w) # d) key v = (if k = key then (k, v) # d else (k, w) # dict_set d key v)"

fun parse_value :: "nat \<Rightarrow> string \<Rightarrow> (json \<times> string) option"
  and parse_elements :: "nat \<Rightarrow> json list \<Rightarrow> string \<Rightarrow> (json \<times> string) option"
  and parse_members :: "nat \<Rightarrow> (string \<times> json) list \<Rightarrow> string \<Rightarrow> (json \<times> string) option"
where
  "parse_value 0 s = None"
| "parse_value (Suc n) s =
     (case s of
        [] \<Rightarrow> None
      | c # r \<Rightarrow>
          if c = CHR 0x22
          then map_option (\<lambda>(t, r'). (JString t, r')) (scan_string (Suc (length r)) r)
          else if c = CHR ''{''
          then (if prefix ''}'' (skip_ws r) then Some (JObject [], drop 1 (skip_ws r))
                else parse_members n [] (skip_ws r))
          else if c = CHR ''[''
          then (if prefix '']'' (skip_ws r) then Some (JArray [], drop 1 (skip_ws r))
                else parse_elements n [] (skip_ws r))
          else if prefix ''null'' s then Some (JNull, drop 4 s)
          else if prefix ''true'' s then Some (JBool True, drop 4 s)
          else if prefix ''false'' s then Some (JBool False, drop 5 s)
          else scan_number s)"
| "parse_elements 0 acc s = None"
| "parse_elements (Suc n) acc s =
     (case parse_value n s of
        None \<Rightarrow> None
      | Some (v, r) \<Rightarrow>
          if prefix '','' (skip_ws r) then parse_elements n (acc @ [v]) (skip_ws (drop 1 (skip_ws r)))
          else if prefix '']'' (skip_ws r) then Some (JArray (acc @ [v]), drop 1 (skip_ws r))
          else None)"
| "parse_members 0 acc s = None"
| "parse_members (Suc n) acc s =
     (if prefix [CHR 0x22] s
      then (case scan_string (length s) (drop 1 s) of
              None \<Rightarrow> None
            | Some (key, r1) \<Rightarrow>
                if prefix '':'' (skip_ws r1)
                then (case parse_value n (skip_ws (drop 1 (skip_ws r1))) of
                        None \<Rightarrow> None
                      | Some (v, r2) \<Rightarrow>
                          if prefix '','' (skip_ws r2)
                          then parse_members n (dict_set acc key v)
                                 (skip_ws (drop 1 (skip_ws r2)))
                          else if prefix ''}'' (skip_ws r2)
                          then Some (JObject (dict_set acc key v), drop 1 (skip_ws r2))
                          else None)
                else None)
      else None)"

text \<open>The value of a JSON text: one value between optional whitespace, \<open>None\<close> when the text
  is not JSON.\<close>

definition json_decode :: "string \<Rightarrow> json option" where
  "json_decode text =
     (case parse_value (Suc (length text)) (skip_ws text) of
        None \<Rightarrow> None
      | Some (v, r) \<Rightarrow> if skip_ws r = [] then Some v else None)"

text \<open>
  \<open>json.loads(text)\<close> in an interpreter without limits: text that is not JSON raises
  \<open>JSONDecodeError\<close> and nothing else is raised. A real interpreter also raises
  \<open>RecursionError\<close> and \<open>ValueError\<close> on some texts this decoder accepts; the operations
  allow for that in the type of their parameter, and no concrete run below has such a text.
\<close>

definition json_loads :: "string \<Rightarrow> loaded" where
  "json_loads text = (case json_decode text of None \<Rightarrow> JSONDecodeError | Some v \<Rightarrow> Loaded v)"

section \<open>Concrete runs\<close>

text \<open>The values the concrete runs below are made of.\<close>

definition never_expired :: "string \<Rightarrow> bool" where
  "never_expired token = False"

definition always_expired :: "string \<Rightarrow> bool" where
  "always_expired token = True"

definition no_path :: "string \<Rightarrow> bool" where
  "no_path p = False"

definition demo_client :: AzClient where
  "demo_client = \<lparr>exe_to_use = ''azcopy'', artefact_dir = None\<rparr>"

definition demo_remote :: AzRemoteSASLocation where
  "demo_remote =
     \<lparr>storage_account = ''acct'', container = ''data'', AzRemoteSASLocation.path = ''dir/'',
      AzRemoteSASLocation.use_wildcard = False, sas_token = ''se=2030-01-01'',
      AzRemoteSASLocation.location_type = None\<rparr>"

definition demo_local :: AzLocalLocation where
  "demo_local =
     \<lparr>AzLocalLocation.path = ''/tmp/out'', AzLocalLocation.use_wildcard = False,
      AzLocalLocation.location_type = None\<rparr>"

definition demo_copy_options :: AzCopyOptions where
  "demo_copy_options =
     \<lparr>overwrite_existing = True, AzCopyOptions.recursive = True,
      AzCopyOptions.put_md5 = False, AzCopyOptions.exclude_path = ''''\<rparr>"

definition demo_sync_options :: AzSyncOptions where
  "demo_sync_options =
     \<lparr>AzSyncOptions.recursive = True, AzSyncOptions.put_md5 = False,
      AzSyncOptions.exclude_path = ''''\<rparr>"

definition demo_list_options :: AzListOptions where
  "demo_list_options =
     \<lparr>properties = None, output_type = ''json'', output_level = None,
      machine_readable = False, mega_units = False, running_tally = False,
      trailing_dot = None\<rparr>"

definition demo_remove_options :: AzRemoveOptions where
  "demo_remove_options =
     \<lparr>AzRemoveOptions.recursive = False, include_pattern = Some ''*.tmp'',
      exclude_pattern = None, dry_run = False, delete_snapshots = None,
      list_of_files = None, list_of_versions = None, force_if_read_only = False,
      permanent_delete = False, include_after = None, include_before = None\<rparr>"

text \<open>A world in which the line source yields \<open>lines\<close> and then raises when \<open>failure\<close> is
  given, no token is expired on entry, and no path exists.\<close>

definition demo_env :: "string list \<Rightarrow> string option \<Rightarrow> (string \<Rightarrow> bool) \<Rightarrow> env" where
  "demo_env lines failure late =
     \<lparr>execute_command = (\<lambda>cmd. (lines, failure)), expired_on_entry = never_expired,
      expired_on_failure = late, path_exists = no_path\<rparr>"

text \<open>A copy whose summary reports two failed transfers under the status \<open>Completed\<close>.\<close>

definition partial_failure_lines :: "string list" where
  "partial_failure_lines =
     [''100.0 %, 3 Done, 2 Failed, 0 Pending, 0 Skipped, 5 Total\<newline>'',
      ''Job 7c1f summary\<newline>'',
      ''Number of Transfers Completed: 3\<newline>'',
      ''Number of Transfers Failed: 2\<newline>'',
      ''Final Job Status: Completed\<newline>'']"

text \<open>The same output under a status that only starts with \<open>Completed\<close>.\<close>

definition failed_status_lines :: "string list" where
  "failed_status_lines =
     [''100.0 %, 3 Done, 2 Failed, 0 Pending, 0 Skipped, 5 Total\<newline>'',
      ''Job 7c1f summary\<newline>'',
      ''Number of Transfers Completed: 3\<newline>'',
      ''Number of Transfers Failed: 2\<newline>'',
      ''Final Job Status: CompletedWithErrors\<newline>'']"

text \<open>The output of a sync: the header of its summary is capitalised differently and
  indented, and a label carries parentheses.\<close>

definition sync_lines :: "string list" where
  "sync_lines =
     [''INFO: job started (sync)\<newline>'',
      ''50.0 %, 1 Done, 0 Failed, 1 Pending, 2 Total\<newline>'',
      ''  Job 7c1f Summary\<newline>'',
      ''Elapsed Time (Minutes): 0.0334\<newline>'',
      ''Number of Copy Transfers Failed: 0\<newline>'',
      ''Final Job Status: CompletedWithSkipped\<newline>'']"

text \<open>Progress lines, two of which carry a percent sign without being a percentage.\<close>

definition progress_lines :: "string list" where
  "progress_lines =
     [''12.5 %, 1 Done\<newline>'', ''about 50% left\<newline>'', ''80.25 %, 4 Done\<newline>'',
      ''80 %, no fraction\<newline>'', ''Final Job Status: Failed\<newline>'']"

text \<open>JSON text: a string literal for \<open>s\<close>, and the lines of a listing.\<close>

definition json_quote :: "string \<Rightarrow> string" where
  "json_quote s =
     CHR 0x22 # concat (map (\<lambda>c. if c = CHR 0x22 \<or> c = CHR 0x5C then [CHR 0x5C, c] else [c]) s)
     @ [CHR 0x22]"

definition list_object_line :: string where
  "list_object_line =
     ''{\"MessageType\":\"ListObject\",\"MessageContent\":'' @ json_quote ''{\"name\":\"a.txt\"}''
     @ ''}''"

definition end_of_job_line :: string where
  "end_of_job_line = ''{\"MessageType\":\"EndOfJob\"}''"

definition info_line :: string where
  "info_line = ''{\"MessageType\":\"Info\",\"MessageContent\":\"scanning\"}''"

definition numeric_content_line :: string where
  "numeric_content_line = ''{\"MessageType\":\"ListObject\",\"MessageContent\":5}''"

definition auth_failed_lines :: "string list" where
  "auth_failed_lines =
     [''INFO: listing\<newline>'', ''RESPONSE 403: AuthenticationFailed\<newline>'',
      ''never read\<newline>'']"

section \<open>Properties of the value objects and the entry points\<close>

lemma py_in_sublist: "py_in sub s = sublist sub s"
  by (induction s) (auto simp: sublist_Cons_right)

lemma py_in_middle: "py_in sub (a @ sub @ b)"
  unfolding py_in_sublist sublist_def by blast

lemma py_in_nonempty: "py_in sub s \<Longrightarrow> sub \<noteq> [] \<Longrightarrow> s \<noteq> []"
  by (cases s) auto

text \<open>
  Claim C8, as the code has it: a Remote-SAS location whose token is not empty and is
  reported as expired can neither be constructed nor rendered; both \<open>__init__\<close> and
  \<open>__str__\<close> raise \<open>Exception("SAS token is expired")\<close>. The guard \<open>len(sas_token) > 0\<close>
  keeps the empty token away from the predicate, whatever the predicate would say of it.
\<close>

theorem sas_location_expired_raises:
  "token \<noteq> [] \<Longrightarrow> expired token \<Longrightarrow>
     AzRemoteSASLocation_init expired account cont p wildcard token ltype
       = Inl ''SAS token is expired''
     \<and> AzRemoteSASLocation_str expired (loc\<lparr>sas_token := token\<rparr>) = Inl ''SAS token is expired''"
  by (simp add: AzRemoteSASLocation_init_def AzRemoteSASLocation_str_def)

theorem sas_location_expired_raises_witness:
  "AzRemoteSASLocation_init always_expired ''acct'' ''data'' ''dir/'' False ''se=2020-01-01'' None
     = Inl ''SAS token is expired''
   \<and> AzRemoteSASLocation_str always_expired (demo_remote\<lparr>sas_token := ''se=2020-01-01''\<rparr>)
     = Inl ''SAS token is expired''"
  using sas_location_expired_raises [of "''se=2020-01-01''" always_expired "''acct''" "''data''"
      "''dir/''" False None demo_remote]
  by (simp add: always_expired_def)

text \<open>
  Claim C8 as stated fails at the empty token: with a predicate that reports every token as
  expired, the location is constructed and renders to a URL.
\<close>

theorem empty_token_renders_counterexample:
  "always_expired ''''
   \<and> AzRemoteSASLocation_init always_expired ''acct'' ''data'' ''dir/'' False '''' None
     = Inr (demo_remote\<lparr>sas_token := ''''\<rparr>)
   \<and> AzRemoteSASLocation_str always_expired (demo_remote\<lparr>sas_token := ''''\<rparr>)
     = Inr ''https://acct.blob.core.windows.net/data/dir/?''"
  by (simp add: always_expired_def AzRemoteSASLocation_init_def AzRemoteSASLocation_str_def
        demo_remote_def get_resource_uri_def)

text \<open>
  Claim C9: \<open>sync_to_local_location\<close> with a destination path that does not exist, and
  \<open>sync_to_remote_location\<close> with a source path that does not exist, raise before anything
  else happens: the call has no event (the line source is not invoked, nothing is echoed)
  and no job info exists.
\<close>

theorem sync_missing_local_path:
  "(\<not> path_exists e (AzLocalLocation.path dest) \<longrightarrow>
      sync_to_local_location e parse self src dest transfer_options
        = ([], Raised (AzLocalLocation.path dest
                        @ '' does not exist. For sync operation, the given path needs to exist'')
                 None))
   \<and> (\<not> path_exists e (AzLocalLocation.path src') \<longrightarrow>
      sync_to_remote_location e parse self src' dest' transfer_options
        = ([], Raised (AzLocalLocation.path src'
                        @ '' does not exist. For sync operation, the given path needs to exist'')
                 None))"
  by (simp add: sync_to_local_location_def sync_to_remote_location_def)

theorem sync_missing_local_path_witness:
  "\<not> path_exists (demo_env sync_lines None never_expired) (AzLocalLocation.path demo_local)
   \<and> sync_to_local_location (demo_env sync_lines None never_expired) get_sync_summary_info
        demo_client demo_remote demo_local demo_sync_options
      = ([], Raised ''/tmp/out does not exist. For sync operation, the given path needs to exist''
               None)
   \<and> sync_to_remote_location (demo_env sync_lines None never_expired) get_sync_summary_info
        demo_client demo_local demo_remote demo_sync_options
      = ([], Raised ''/tmp/out does not exist. For sync operation, the given path needs to exist''
               None)"
  using sync_missing_local_path [of "demo_env sync_lines None never_expired" demo_local
      get_sync_summary_info demo_client demo_remote demo_sync_options demo_local demo_remote]
  by (simp add: demo_env_def no_path_def demo_local_def)

subsection \<open>Remove options\<close>

lemma AzClient_remove_events:
  "AzRemoteSASLocation_str (expired_on_entry e) location = Inr l \<Longrightarrow>
   fst (AzClient_remove e parse self location remove_options)
     = Spawn ([exe_to_use self, ''remove'', l] @ AzRemoveOptions_get_options_list remove_options)
       # map Echo (fst (execute_command e ([exe_to_use self, ''remove'', l] @ AzRemoveOptions_get_options_list remove_options)))"
  by (simp add: AzClient_remove_def Let_def split_beta)

lemma recursive_options_list:
  "AzRemoveOptions_get_options_list (remove_options\<lparr>AzRemoveOptions.recursive := True\<rparr>)
     = ''--recursive''
       # AzRemoveOptions_get_options_list (remove_options\<lparr>AzRemoveOptions.recursive := False\<rparr>)"
  by (simp add: AzRemoveOptions_get_options_list_def)

text \<open>
  Claim C10: \<open>remove_directory_recursive\<close> sets \<open>recursive\<close> on the options object of its
  caller before the argument list is built. Whatever the call then does (return or raise),
  the object it leaves behind has \<open>recursive = True\<close> and its other fields as they were, so
  its argument list starts with \<open>--recursive\<close>, in this call's command and in any later use
  of the same object.
\<close>

theorem remove_directory_recursive_sets_flag:
  "fst (remove_directory_recursive e parse self location remove_options)
     = remove_options\<lparr>AzRemoveOptions.recursive := True\<rparr>
   \<and> snd (remove_directory_recursive e parse self location remove_options)
     = AzClient_remove e parse self location (remove_options\<lparr>AzRemoveOptions.recursive := True\<rparr>)
   \<and> AzRemoveOptions_get_options_list
        (fst (remove_directory_recursive e parse self location remove_options))
     = ''--recursive''
       # AzRemoveOptions_get_options_list (remove_options\<lparr>AzRemoveOptions.recursive := False\<rparr>)
   \<and> (AzRemoteSASLocation_str (expired_on_entry e) location = Inr l \<longrightarrow>
        hd (fst (snd (remove_directory_recursive e parse self location remove_options)))
          = Spawn ([exe_to_use self, ''remove'', l, ''--recursive'']
                   @ AzRemoveOptions_get_options_list
                       (remove_options\<lparr>AzRemoveOptions.recursive := False\<rparr>)))"
  by (simp add: remove_directory_recursive_def Let_def AzClient_remove_events recursive_options_list)


lemma demo_remote_str:
  "AzRemoteSASLocation_str never_expired demo_remote
     = Inr ''https://acct.blob.core.windows.net/data/dir/?se=2030-01-01''"
  by (simp add: never_expired_def AzRemoteSASLocation_str_def demo_remote_def get_resource_uri_def)

lemma demo_remove_options_list:
  "AzRemoveOptions_get_options_list (demo_remove_options\<lparr>AzRemoveOptions.recursive := False\<rparr>)
     = [''--include-pattern'', ''*.tmp'']"
  by (simp add: AzRemoveOptions_get_options_list_def demo_remove_options_def)

theorem remove_directory_recursive_sets_flag_witness:
  "fst (remove_directory_recursive (demo_env failed_status_lines None never_expired)
          get_remove_summary_info demo_client demo_remote demo_remove_options)
     = demo_remove_options\<lparr>AzRemoveOptions.recursive := True\<rparr>
   \<and> hd (fst (snd (remove_directory_recursive (demo_env failed_status_lines None never_expired)
                     get_remove_summary_info demo_client demo_remote demo_remove_options)))
     = Spawn [''azcopy'', ''remove'', ''https://acct.blob.core.windows.net/data/dir/?se=2030-01-01'',
              ''--recursive'', ''--include-pattern'', ''*.tmp'']
   \<and> hd (fst (snd (remove_from_remote_location (demo_env [] None never_expired)
                     get_remove_summary_info demo_client demo_remote
                     (fst (remove_directory_recursive
                             (demo_env failed_status_lines None never_expired)
                             get_remove_summary_info demo_client demo_remote
                             demo_remove_options)))))
     = Spawn [''azcopy'', ''remove'', ''https://acct.blob.core.windows.net/data/dir/?se=2030-01-01'',
              ''--recursive'', ''--include-pattern'', ''*.tmp'']"
proof -
  have r: "AzRemoteSASLocation_str
             (expired_on_entry (demo_env failed_status_lines None never_expired)) demo_remote
           = Inr ''https://acct.blob.core.windows.net/data/dir/?se=2030-01-01''"
    by (simp add: demo_env_def demo_remote_str)
  have r': "AzRemoteSASLocation_str (expired_on_entry (demo_env [] None never_expired)) demo_remote
           = Inr ''https://acct.blob.core.windows.net/data/dir/?se=2030-01-01''"
    by (simp add: demo_env_def demo_remote_str)
  have c: "exe_to_use demo_client = ''azcopy''"
    by (simp add: demo_client_def)
  note t = remove_directory_recursive_sets_flag
    [of "demo_env failed_status_lines None never_expired" get_remove_summary_info demo_client
      demo_remote demo_remove_options
      "''https://acct.blob.core.windows.net/data/dir/?se=2030-01-01''"]
  have s: "hd (fst (snd (remove_from_remote_location (demo_env [] None never_expired)
                          get_remove_summary_info demo_client demo_remote
                          (demo_remove_options\<lparr>AzRemoveOptions.recursive := True\<rparr>))))
     = Spawn [''azcopy'', ''remove'', ''https://acct.blob.core.windows.net/data/dir/?se=2030-01-01'',
              ''--recursive'', ''--include-pattern'', ''*.tmp'']"
    by (simp add: remove_from_remote_location_def AzClient_remove_events [OF r'] c
          recursive_options_list demo_remove_options_list)
  have t1: "fst (remove_directory_recursive (demo_env failed_status_lines None never_expired)
                 get_remove_summary_info demo_client demo_remote demo_remove_options)
            = demo_remove_options\<lparr>AzRemoveOptions.recursive := True\<rparr>"
    using t by blast
  have t4: "hd (fst (snd (remove_directory_recursive
                            (demo_env failed_status_lines None never_expired)
                            get_remove_summary_info demo_client demo_remote demo_remove_options)))
     = Spawn ([exe_to_use demo_client, ''remove'',
               ''https://acct.blob.core.windows.net/data/dir/?se=2030-01-01'', ''--recursive'']
              @ AzRemoveOptions_get_options_list
                  (demo_remove_options\<lparr>AzRemoveOptions.recursive := False\<rparr>))"
    using t r by blast
  show ?thesis
    unfolding t1 t4 s by (simp add: c demo_remove_options_list)
qed

subsection \<open>The decision after the stream\<close>

lemma copy_finalize_cases:
  "(copy_finalize j = Returned j' \<longrightarrow>
      completed j' \<and> (final_job_status_msg j' = ''Completed''
                     \<or> final_job_status_msg j' = ''CompletedWithSkipped''))
   \<and> (copy_finalize j = Raised m (Some j') \<longrightarrow>
      \<not> completed j' \<and> final_job_status_msg j' \<noteq> ''Completed''
      \<and> final_job_status_msg j' \<noteq> ''CompletedWithSkipped'')"
  by (auto simp: copy_finalize_def Let_def split: if_splits)

lemma sync_finalize_cases:
  "(sync_finalize j = Returned j' \<longrightarrow>
      completed j' \<and> (final_job_status_msg j' = ''Completed''
                     \<or> final_job_status_msg j' = ''CompletedWithSkipped''))
   \<and> (sync_finalize j = Raised m (Some j') \<longrightarrow>
      \<not> completed j' \<and> final_job_status_msg j' \<noteq> ''Completed''
      \<and> final_job_status_msg j' \<noteq> ''CompletedWithSkipped'')"
  by (auto simp: sync_finalize_def Let_def split: if_splits)

lemma remove_finalize_cases:
  "(remove_finalize j = Returned j' \<longrightarrow>
      completed j' \<and> (final_job_status_msg j' = ''Completed''
                     \<or> final_job_status_msg j' = ''CompletedWithSkipped''))
   \<and> (remove_finalize j = Raised m (Some j') \<longrightarrow>
      \<not> completed j' \<and> final_job_status_msg j' \<noteq> ''Completed''
      \<and> final_job_status_msg j' \<noteq> ''CompletedWithSkipped'')"
  by (auto simp: remove_finalize_def Let_def split: if_splits)

lemma AzClient_copy_outcome:
  "(\<exists>msg. snd (AzClient_copy e parse self src dest transfer_options) = Raised msg None)
   \<or> (\<exists>j. snd (AzClient_copy e parse self src dest transfer_options) = copy_finalize j)"
  by (auto simp: AzClient_copy_def Let_def split_beta split: sum.splits)

lemma AzClient_sync_outcome:
  "(\<exists>msg. snd (AzClient_sync e parse self src dest transfer_options) = Raised msg None)
   \<or> (\<exists>j. snd (AzClient_sync e parse self src dest transfer_options) = sync_finalize j)"
  by (auto simp: AzClient_sync_def Let_def split_beta split: sum.splits)

lemma AzClient_remove_outcome:
  "(\<exists>msg. snd (AzClient_remove e parse self location remove_options) = Raised msg None)
   \<or> (\<exists>j. snd (AzClient_remove e parse self location remove_options) = remove_finalize j)"
  by (auto simp: AzClient_remove_def Let_def split_beta split: sum.splits)

lemma AzClient_list_outcome:
  "(snd (AzClient_list e loads self location list_options) = Returned j \<longrightarrow>
      completed j \<and> final_job_status_msg j = ''Completed'')
   \<and> (snd (AzClient_list e loads self location list_options) = Raised m (Some j) \<longrightarrow>
      \<not> completed j \<and> final_job_status_msg j = '''')"
  by (auto simp: AzClient_list_def Let_def split_beta list_except_def AzListJobInfo_init_def
        split: sum.splits option.splits)

text \<open>
  Claim C2: in every job info a copy, sync, remove or list call produces, \<open>completed\<close> is
  true exactly when \<open>final_job_status_msg\<close> equals \<open>Completed\<close> or \<open>CompletedWithSkipped\<close>.
  A call that returns has such a job info (for list, \<open>Completed\<close>); a call that raises after
  it built a job info leaves it with \<open>completed = False\<close> and a status that is neither of the
  two strings (for list, the empty string). The test is equality of strings: the concrete
  run that follows has the status \<open>CompletedWithErrors\<close> and raises.
\<close>

theorem completed_iff_status:
  "(snd (AzClient_copy e parse_copy self src dest copy_options) = Returned jc \<longrightarrow>
      completed jc \<and> (final_job_status_msg jc = ''Completed''
                     \<or> final_job_status_msg jc = ''CompletedWithSkipped''))
   \<and> (snd (AzClient_copy e parse_copy self src dest copy_options) = Raised m (Some jc) \<longrightarrow>
      \<not> completed jc \<and> final_job_status_msg jc \<noteq> ''Completed''
      \<and> final_job_status_msg jc \<noteq> ''CompletedWithSkipped'')
   \<and> (snd (AzClient_sync e parse_sync self src dest sync_options) = Returned js \<longrightarrow>
      completed js \<and> (final_job_status_msg js = ''Completed''
                     \<or> final_job_status_msg js = ''CompletedWithSkipped''))
   \<and> (snd (AzClient_sync e parse_sync self src dest sync_options) = Raised m (Some js) \<longrightarrow>
      \<not> completed js \<and> final_job_status_msg js \<noteq> ''Completed''
      \<and> final_job_status_msg js \<noteq> ''CompletedWithSkipped'')
   \<and> (snd (AzClient_remove e parse_remove self location remove_options) = Returned jr \<longrightarrow>
      completed jr \<and> (final_job_status_msg jr = ''Completed''
                     \<or> final_job_status_msg jr = ''CompletedWithSkipped''))
   \<and> (snd (AzClient_remove e parse_remove self location remove_options) = Raised m (Some jr) \<longrightarrow>
      \<not> completed jr \<and> final_job_status_msg jr \<noteq> ''Completed''
      \<and> final_job_status_msg jr \<noteq> ''CompletedWithSkipped'')
   \<and> (snd (AzClient_list e loads self location list_options) = Returned jl \<longrightarrow>
      completed jl \<and> final_job_status_msg jl = ''Completed'')
   \<and> (snd (AzClient_list e loads self location list_options) = Raised m (Some jl) \<longrightarrow>
      \<not> completed jl \<and> final_job_status_msg jl = '''')"
proof -
  have c: "snd (AzClient_copy e parse_copy self src dest copy_options) = Returned jc \<longrightarrow>
      completed jc \<and> (final_job_status_msg jc = ''Completed''
                     \<or> final_job_status_msg jc = ''CompletedWithSkipped'')"
   and c': "snd (AzClient_copy e parse_copy self src dest copy_options) = Raised m (Some jc) \<longrightarrow>
      \<not> completed jc \<and> final_job_status_msg jc \<noteq> ''Completed''
      \<and> final_job_status_msg jc \<noteq> ''CompletedWithSkipped''"
    using AzClient_copy_outcome [of e parse_copy self src dest copy_options] copy_finalize_cases
    by (metis outcome.distinct(1) outcome.inject(2) option.distinct(1))+
  have s: "snd (AzClient_sync e parse_sync self src dest sync_options) = Returned js \<longrightarrow>
      completed js \<and> (final_job_status_msg js = ''Completed''
                     \<or> final_job_status_msg js = ''CompletedWithSkipped'')"
   and s': "snd (AzClient_sync e parse_sync self src dest sync_options) = Raised m (Some js) \<longrightarrow>
      \<not> completed js \<and> final_job_status_msg js \<noteq> ''Completed''
      \<and> final_job_status_msg js \<noteq> ''CompletedWithSkipped''"
    using AzClient_sync_outcome [of e parse_sync self src dest sync_options] sync_finalize_cases
    by (metis outcome.distinct(1) outcome.inject(2) option.distinct(1))+
  have r: "snd (AzClient_remove e parse_remove self location remove_options) = Returned jr \<longrightarrow>
      completed jr \<and> (final_job_status_msg jr = ''Completed''
                     \<or> final_job_status_msg jr = ''CompletedWithSkipped'')"
   and r': "snd (AzClient_remove e parse_remove self location remove_options) = Raised m (Some jr) \<longrightarrow>
      \<not> completed jr \<and> final_job_status_msg jr \<noteq> ''Completed''
      \<and> final_job_status_msg jr \<noteq> ''CompletedWithSkipped''"
    using AzClient_remove_outcome [of e parse_remove self location remove_options]
      remove_finalize_cases
    by (metis outcome.distinct(1) outcome.inject(2) option.distinct(1))+
  show ?thesis
    using c c' s s' r r' AzClient_list_outcome [of e loads self location list_options jl m]
    by blast
qed


lemma raised_copy_run:
  "snd (AzClient_copy (demo_env failed_status_lines None never_expired)
          get_transfer_copy_summary_info demo_client (Local demo_local) (Remote demo_remote)
          demo_copy_options)
   = Raised ''; Tranfers failed = 2''
       (Some \<lparr>error_msg = ''; Tranfers failed = 2'',
              final_job_status_msg = ''CompletedWithErrors'', completed = False,
              percent_complete = 100, number_of_file_transfers = 0,
              number_of_folder_property_transfers = 0, total_number_of_transfers = 0,
              number_of_transfers_completed = 3, number_of_transfers_failed = 2,
              number_of_transfers_skipped = 0, total_bytes_transferred = 0\<rparr>)"
  by code_simp

lemma returned_sync_run:
  "snd (AzClient_sync (demo_env sync_lines None never_expired) get_sync_summary_info
          demo_client (Local demo_local) (Remote demo_remote) demo_sync_options)
   = Returned
       \<lparr>error_msg = [], final_job_status_msg = ''CompletedWithSkipped'', completed = True,
        percent_complete = 50, files_scanned_at_source = 0, files_scanned_at_destination = 0,
        number_of_copy_transfers_for_files = 0,
        number_of_copy_transfers_for_folder_properties = 0,
        number_of_folder_property_transfers = 0, total_number_of_copy_transfers = 0,
        number_of_copy_transfers_completed = 0, number_of_copy_transfers_failed = 0,
        number_of_deletions_at_destination = 0, total_number_of_bytes_transferred = 0,
        total_number_of_bytes_enumerated = 0\<rparr>"
  by code_simp

theorem completed_iff_status_witness:
  "snd (AzClient_copy (demo_env failed_status_lines None never_expired)
          get_transfer_copy_summary_info demo_client (Local demo_local) (Remote demo_remote)
          demo_copy_options)
   = Raised ''; Tranfers failed = 2''
       (Some \<lparr>error_msg = ''; Tranfers failed = 2'',
              final_job_status_msg = ''CompletedWithErrors'', completed = False,
              percent_complete = 100, number_of_file_transfers = 0,
              number_of_folder_property_transfers = 0, total_number_of_transfers = 0,
              number_of_transfers_completed = 3, number_of_transfers_failed = 2,
              number_of_transfers_skipped = 0, total_bytes_transferred = 0\<rparr>)
   \<and> snd (AzClient_sync (demo_env sync_lines None never_expired) get_sync_summary_info
          demo_client (Local demo_local) (Remote demo_remote) demo_sync_options)
   = Returned
       \<lparr>error_msg = [], final_job_status_msg = ''CompletedWithSkipped'', completed = True,
        percent_complete = 50, files_scanned_at_source = 0, files_scanned_at_destination = 0,
        number_of_copy_transfers_for_files = 0,
        number_of_copy_transfers_for_folder_properties = 0,
        number_of_folder_property_transfers = 0, total_number_of_copy_transfers = 0,
        number_of_copy_transfers_completed = 0, number_of_copy_transfers_failed = 0,
        number_of_deletions_at_destination = 0, total_number_of_bytes_transferred = 0,
        total_number_of_bytes_enumerated = 0\<rparr>"
  using completed_iff_status
    [where e = "demo_env failed_status_lines None never_expired"
       and parse_copy = get_transfer_copy_summary_info and self = demo_client
       and src = "Local demo_local" and dest = "Remote demo_remote"
       and copy_options = demo_copy_options and m = "''; Tranfers failed = 2''"]
    raised_copy_run returned_sync_run
  by simp


lemma AzClient_copy_run:
  assumes "location_str (expired_on_entry e) src = Inr s"
    and "location_str (expired_on_entry e) dest = Inr d"
    and "execute_command e ([exe_to_use self, ''cp'', s, d]
           @ AzCopyOptions_get_options_list transfer_options) = (lines, failure)"
  shows "AzClient_copy e parse self src dest transfer_options
    = (Spawn ([exe_to_use self, ''cp'', s, d] @ AzCopyOptions_get_options_list transfer_options)
         # map Echo lines,
       copy_finalize (parse (copy_except e src dest failure (job_info (copy_loop lines)))
                        (summary (copy_loop lines))))"
  using assms by (simp add: AzClient_copy_def Let_def)

text \<open>
  Claim C1, as the code has it: the status is tested first. When the status after parsing
  is neither \<open>Completed\<close> nor \<open>CompletedWithSkipped\<close> and the parsed
  \<open>number_of_transfers_failed\<close> is a positive \<open>n\<close>, the copy raises with a message that
  contains \<open>Tranfers failed = n\<close> and leaves \<open>completed = False\<close>. When the status is one of
  the two, the copy returns with \<open>completed = True\<close> whatever the counter says.
\<close>

theorem copy_failed_transfers:
  assumes "location_str (expired_on_entry e) src = Inr s"
    and "location_str (expired_on_entry e) dest = Inr d"
    and "execute_command e ([exe_to_use self, ''cp'', s, d]
           @ AzCopyOptions_get_options_list transfer_options) = (lines, failure)"
    and "parse (copy_except e src dest failure (job_info (copy_loop lines)))
           (summary (copy_loop lines)) = j"
    and "number_of_transfers_failed j = n" and "0 < n"
  shows "(final_job_status_msg j \<noteq> ''Completed''
          \<and> final_job_status_msg j \<noteq> ''CompletedWithSkipped'' \<longrightarrow>
            snd (AzClient_copy e parse self src dest transfer_options)
              = Raised (error_msg j @ ''; Tranfers failed = '' @ str_int n)
                  (Some (j\<lparr>error_msg := error_msg j @ ''; Tranfers failed = '' @ str_int n,
                          completed := False\<rparr>))
            \<and> py_in (''Tranfers failed = '' @ str_int n)
                  (error_msg j @ ''; Tranfers failed = '' @ str_int n))
       \<and> (final_job_status_msg j = ''Completed''
          \<or> final_job_status_msg j = ''CompletedWithSkipped'' \<longrightarrow>
            snd (AzClient_copy e parse self src dest transfer_options)
              = Returned (j\<lparr>completed := True\<rparr>))"
proof -
  have run: "snd (AzClient_copy e parse self src dest transfer_options) = copy_finalize j"
    using AzClient_copy_run [OF assms(1-3), of parse] assms(4) by simp
  have inside: "py_in (''Tranfers failed = '' @ str_int n)
                  (error_msg j @ ''; Tranfers failed = '' @ str_int n)"
    using py_in_middle [of "''Tranfers failed = '' @ str_int n" "error_msg j @ ''; ''" "[]"]
    by simp
  show ?thesis
    using run inside assms(5,6) by (simp add: copy_finalize_def Let_def)
qed

lemma demo_local_str: "AzLocalLocation_str demo_local = ''/tmp/out''"
  by (simp add: AzLocalLocation_str_def demo_local_def)

lemma parsed_failed_status:
  "get_transfer_copy_summary_info
     (copy_except (demo_env failed_status_lines None never_expired) (Local demo_local)
        (Remote demo_remote) None (job_info (copy_loop failed_status_lines)))
     (summary (copy_loop failed_status_lines))
   = \<lparr>error_msg = [], final_job_status_msg = ''CompletedWithErrors'', completed = False,
      percent_complete = 100, number_of_file_transfers = 0,
      number_of_folder_property_transfers = 0, total_number_of_transfers = 0,
      number_of_transfers_completed = 3, number_of_transfers_failed = 2,
      number_of_transfers_skipped = 0, total_bytes_transferred = 0\<rparr>"
  by code_simp

theorem copy_failed_transfers_witness:
  "snd (AzClient_copy (demo_env failed_status_lines None never_expired)
          get_transfer_copy_summary_info demo_client (Local demo_local) (Remote demo_remote)
          demo_copy_options)
   = Raised ''; Tranfers failed = 2''
       (Some \<lparr>error_msg = ''; Tranfers failed = 2'',
              final_job_status_msg = ''CompletedWithErrors'', completed = False,
              percent_complete = 100, number_of_file_transfers = 0,
              number_of_folder_property_transfers = 0, total_number_of_transfers = 0,
              number_of_transfers_completed = 3, number_of_transfers_failed = 2,
              number_of_transfers_skipped = 0, total_bytes_transferred = 0\<rparr>)
   \<and> py_in ''Tranfers failed = 2'' ''; Tranfers failed = 2''"
proof -
  have s: "location_str (expired_on_entry (demo_env failed_status_lines None never_expired))
             (Local demo_local) = Inr ''/tmp/out''"
    by (simp add: demo_env_def demo_local_str)
  have d: "location_str (expired_on_entry (demo_env failed_status_lines None never_expired))
             (Remote demo_remote)
           = Inr ''https://acct.blob.core.windows.net/data/dir/?se=2030-01-01''"
    by (simp add: demo_env_def demo_remote_str)
  have x: "execute_command (demo_env failed_status_lines None never_expired)
             ([exe_to_use demo_client, ''cp'', ''/tmp/out'',
               ''https://acct.blob.core.windows.net/data/dir/?se=2030-01-01'']
              @ AzCopyOptions_get_options_list demo_copy_options)
           = (failed_status_lines, None)"
    by (simp add: demo_env_def)
  have n: "str_int 2 = ''2''"
    by (simp add: str_int_def)
  show ?thesis
    using copy_failed_transfers
      [where parse = get_transfer_copy_summary_info and n = 2, OF s d x parsed_failed_status]
    by (simp add: n)
qed

text \<open>
  Claim C1 as stated fails: a summary that reports two failed transfers under the status
  \<open>Completed\<close> is returned as a success, with \<open>completed = True\<close> and
  \<open>number_of_transfers_failed = 2\<close>.
\<close>

theorem copy_completed_with_failures_counterexample:
  "snd (AzClient_copy (demo_env partial_failure_lines None never_expired)
          get_transfer_copy_summary_info demo_client (Local demo_local) (Remote demo_remote)
          demo_copy_options)
   = Returned
       \<lparr>error_msg = [], final_job_status_msg = ''Completed'', completed = True,
        percent_complete = 100, number_of_file_transfers = 0,
        number_of_folder_property_transfers = 0, total_number_of_transfers = 0,
        number_of_transfers_completed = 3, number_of_transfers_failed = 2,
        number_of_transfers_skipped = 0, total_bytes_transferred = 0\<rparr>"
  by code_simp

subsection \<open>The summary buffer\<close>

lemma copy_line_summary:
  "summary (copy_line st l) = (if unlock_summary st then summary st @ l else summary st)"
  by (simp add: copy_line_def Let_def)

lemma copy_line_unlock:
  "unlock_summary (copy_line st l)
     = (unlock_summary st \<or> (startswith l ''Job'' \<and> py_in ''summary'' l))"
  by (auto simp: copy_line_def Let_def)

lemma copy_fold_summary:
  "summary (foldl copy_line st lines)
     = summary st
       @ (if unlock_summary st then concat lines
          else concat (drop 1 (dropWhile
                 (\<lambda>l. \<not> (startswith l ''Job'' \<and> py_in ''summary'' l)) lines)))"
proof (induction lines arbitrary: st)
  case Nil
  show ?case by simp
next
  case (Cons l ls)
  show ?case
    unfolding foldl_Cons Cons.IH [of "copy_line st l"] copy_line_summary copy_line_unlock
    by simp
qed

lemma remove_line_summary:
  "summary (remove_line st l) = (if unlock_summary st then summary st @ l else summary st)"
  by (simp add: remove_line_def Let_def)

lemma remove_line_unlock:
  "unlock_summary (remove_line st l)
     = (unlock_summary st \<or> (startswith l ''Job'' \<and> py_in ''summary'' l))"
  by (auto simp: remove_line_def Let_def)

lemma remove_fold_summary:
  "summary (foldl remove_line st lines)
     = summary st
       @ (if unlock_summary st then concat lines
          else concat (drop 1 (dropWhile
                 (\<lambda>l. \<not> (startswith l ''Job'' \<and> py_in ''summary'' l)) lines)))"
proof (induction lines arbitrary: st)
  case Nil
  show ?case by simp
next
  case (Cons l ls)
  show ?case
    unfolding foldl_Cons Cons.IH [of "remove_line st l"] remove_line_summary remove_line_unlock
    by simp
qed

lemma sync_line_summary:
  "summary (sync_line st l)
     = (if unlock_summary st then summary st @ remove_char CHR '')'' (remove_char CHR ''('' l)
        else summary st)"
  by (simp add: sync_line_def Let_def)

lemma sync_line_unlock:
  "unlock_summary (sync_line st l)
     = (unlock_summary st
        \<or> (startswith (lower (strip l)) ''job'' \<and> py_in ''summary'' (lower (strip l))))"
  by (auto simp: sync_line_def Let_def)

lemma sync_fold_summary:
  "summary (foldl sync_line st lines)
     = summary st
       @ (if unlock_summary st
          then concat (map (\<lambda>l. remove_char CHR '')'' (remove_char CHR ''('' l)) lines)
          else concat (map (\<lambda>l. remove_char CHR '')'' (remove_char CHR ''('' l))
                 (drop 1 (dropWhile
                    (\<lambda>l. \<not> (startswith (lower (strip l)) ''job''
                              \<and> py_in ''summary'' (lower (strip l)))) lines))))"
proof (induction lines arbitrary: st)
  case Nil
  show ?case by simp
next
  case (Cons l ls)
  show ?case
    unfolding foldl_Cons Cons.IH [of "sync_line st l"] sync_line_summary sync_line_unlock
    by simp
qed

text \<open>
  Claim C3, as the code has it: the loop appends to the summary before it looks whether the
  current line unlocks it, so the line that unlocks the summary is not captured itself. The
  summary buffer is the concatenation of the lines strictly after the first unlock line, in
  order: verbatim for copy and remove, where the unlock line starts with \<open>Job\<close> and contains
  \<open>summary\<close> as it stands, and without \<open>(\<close> and \<open>)\<close> for sync, where the test is made on the
  trimmed, lower-cased line and the token is \<open>job\<close>. The buffer is empty when no line
  unlocks it.
\<close>

theorem summary_after_unlock_line:
  "summary (copy_loop lines)
     = concat (drop 1 (dropWhile
         (\<lambda>l. \<not> (startswith l ''Job'' \<and> py_in ''summary'' l)) lines))
   \<and> summary (remove_loop lines)
     = concat (drop 1 (dropWhile
         (\<lambda>l. \<not> (startswith l ''Job'' \<and> py_in ''summary'' l)) lines))
   \<and> summary (sync_loop lines)
     = concat (map (\<lambda>l. remove_char CHR '')'' (remove_char CHR ''('' l))
         (drop 1 (dropWhile
            (\<lambda>l. \<not> (startswith (lower (strip l)) ''job''
                      \<and> py_in ''summary'' (lower (strip l)))) lines)))"
  by (simp add: copy_loop_def remove_loop_def sync_loop_def copy_fold_summary
        remove_fold_summary sync_fold_summary)

theorem summary_after_unlock_line_witness:
  "summary (copy_loop partial_failure_lines)
     = ''Number of Transfers Completed: 3\<newline>Number of Transfers Failed: 2\<newline>Final Job Status: Completed\<newline>''
   \<and> summary (remove_loop partial_failure_lines)
     = ''Number of Transfers Completed: 3\<newline>Number of Transfers Failed: 2\<newline>Final Job Status: Completed\<newline>''
   \<and> summary (sync_loop sync_lines)
     = ''Elapsed Time Minutes: 0.0334\<newline>Number of Copy Transfers Failed: 0\<newline>Final Job Status: CompletedWithSkipped\<newline>''"
proof -
  have a: "concat (drop 1 (dropWhile
         (\<lambda>l. \<not> (startswith l ''Job'' \<and> py_in ''summary'' l)) partial_failure_lines))
     = ''Number of Transfers Completed: 3\<newline>Number of Transfers Failed: 2\<newline>Final Job Status: Completed\<newline>''"
    by code_simp
  have b: "concat (map (\<lambda>l. remove_char CHR '')'' (remove_char CHR ''('' l))
         (drop 1 (dropWhile
            (\<lambda>l. \<not> (startswith (lower (strip l)) ''job''
                      \<and> py_in ''summary'' (lower (strip l)))) sync_lines)))
     = ''Elapsed Time Minutes: 0.0334\<newline>Number of Copy Transfers Failed: 0\<newline>Final Job Status: CompletedWithSkipped\<newline>''"
    by code_simp
  show ?thesis
    using summary_after_unlock_line [of partial_failure_lines]
      summary_after_unlock_line [of sync_lines] a b
    by simp
qed

text \<open>
  Claim C3 as stated fails: the buffer does not hold the lines at or after the unlock line,
  since the unlock line \<open>Job 7c1f summary\<close> is missing from it.
\<close>

theorem unlock_line_not_captured_counterexample:
  "summary (copy_loop partial_failure_lines)
     \<noteq> concat (dropWhile (\<lambda>l. \<not> (startswith l ''Job'' \<and> py_in ''summary'' l))
                 partial_failure_lines)
   \<and> summary (copy_loop partial_failure_lines)
     = ''Number of Transfers Completed: 3\<newline>Number of Transfers Failed: 2\<newline>Final Job Status: Completed\<newline>''
   \<and> concat (dropWhile (\<lambda>l. \<not> (startswith l ''Job'' \<and> py_in ''summary'' l))
               partial_failure_lines)
     = ''Job 7c1f summary\<newline>Number of Transfers Completed: 3\<newline>Number of Transfers Failed: 2\<newline>Final Job Status: Completed\<newline>''"
  by code_simp

subsection \<open>Progress\<close>

lemma py_in_char: "py_in [c] s = (c \<in> set s)"
  by (induction s) auto

lemma percent_match_has_percent:
  assumes "percent_match l = Some t"
  shows "py_in ''%'' l"
proof -
  obtain c rest where d: "dropWhile is_digit l = c # rest"
    and p: "prefix '' %,'' (dropWhile is_digit rest)"
    using assms by (auto simp: percent_match_def Let_def split: list.splits if_splits)
  from p have "CHR ''%'' \<in> set (dropWhile is_digit rest)"
    by (auto simp: prefix_def)
  then have "CHR ''%'' \<in> set rest"
    by (rule set_dropWhileD)
  then have "CHR ''%'' \<in> set (dropWhile is_digit l)"
    using d by simp
  then have "CHR ''%'' \<in> set l"
    by (rule set_dropWhileD)
  then show ?thesis
    by (simp add: py_in_char)
qed

text \<open>What the pattern matches, spelled out.\<close>

lemma percent_match_iff:
  "percent_match l = Some t \<longleftrightarrow>
     (\<exists>a b rest. a \<noteq> [] \<and> b \<noteq> [] \<and> list_all is_digit a \<and> list_all is_digit b
        \<and> l = a @ ''.'' @ b @ '' %,'' @ rest \<and> t = a @ ''.'' @ b)"
proof
  assume m: "percent_match l = Some t"
  then obtain c rest where d: "dropWhile is_digit l = c # rest"
    and c: "c = CHR ''.''" and a: "takeWhile is_digit l \<noteq> []"
    and b: "takeWhile is_digit rest \<noteq> []"
    and p: "prefix '' %,'' (dropWhile is_digit rest)"
    and t: "t = takeWhile is_digit l @ ''.'' @ takeWhile is_digit rest"
    by (auto simp: percent_match_def Let_def split: list.splits if_splits)
  from p obtain zs where zs: "dropWhile is_digit rest = '' %,'' @ zs"
    by (auto simp: prefix_def)
  have "l = takeWhile is_digit l @ dropWhile is_digit l"
    by simp
  also have "\<dots> = takeWhile is_digit l @ ''.'' @ rest"
    using d c by simp
  also have "rest = takeWhile is_digit rest @ dropWhile is_digit rest"
    by simp
  finally have "l = takeWhile is_digit l @ ''.'' @ takeWhile is_digit rest @ '' %,'' @ zs"
    using zs by simp
  moreover have "list_all is_digit (takeWhile is_digit l)"
    "list_all is_digit (takeWhile is_digit rest)"
    by (auto simp: list_all_iff dest: set_takeWhileD)
  ultimately show "\<exists>a b rest. a \<noteq> [] \<and> b \<noteq> [] \<and> list_all is_digit a \<and> list_all is_digit b
        \<and> l = a @ ''.'' @ b @ '' %,'' @ rest \<and> t = a @ ''.'' @ b"
    using a b t by blast
next
  assume "\<exists>a b rest. a \<noteq> [] \<and> b \<noteq> [] \<and> list_all is_digit a \<and> list_all is_digit b
        \<and> l = a @ ''.'' @ b @ '' %,'' @ rest \<and> t = a @ ''.'' @ b"
  then obtain a b rest where ne: "a \<noteq> []" "b \<noteq> []"
    and da: "list_all is_digit a" and db: "list_all is_digit b"
    and l: "l = a @ ''.'' @ b @ '' %,'' @ rest" and t: "t = a @ ''.'' @ b"
    by blast
  have nd: "\<not> is_digit CHR ''.''" "\<not> is_digit CHR '' ''"
    by (simp_all add: is_digit_def)
  have ta: "takeWhile is_digit l = a" and dr: "dropWhile is_digit l = ''.'' @ b @ '' %,'' @ rest"
    using da nd unfolding l by (simp_all add: list_all_iff takeWhile_append2 dropWhile_append2)
  have tb: "takeWhile is_digit (b @ '' %,'' @ rest) = b"
    and drb: "dropWhile is_digit (b @ '' %,'' @ rest) = '' %,'' @ rest"
    using db nd by (simp_all add: list_all_iff takeWhile_append2 dropWhile_append2)
  show "percent_match l = Some t"
    unfolding percent_match_def ta dr using ne t tb drb by (simp add: Let_def)
qed

lemma copy_line_percent:
  "percent_complete (job_info (copy_line st l))
     = (case percent_match l of
          None \<Rightarrow> percent_complete (job_info st)
        | Some t \<Rightarrow> py_float t)"
  using percent_match_has_percent [of l]
  by (auto simp: copy_line_def Let_def split: option.splits)

lemma copy_fold_percent:
  "percent_complete (job_info (foldl copy_line st lines))
     = last (percent_complete (job_info st) # map py_float (List.map_filter percent_match lines))"
proof (induction lines arbitrary: st)
  case Nil
  show ?case by (simp add: List.map_filter_simps)
next
  case (Cons l ls)
  show ?case
    unfolding foldl_Cons Cons.IH [of "copy_line st l"] copy_line_percent
    by (simp add: List.map_filter_simps split: option.splits)
qed


lemma sync_line_percent:
  "percent_complete (job_info (sync_line st l))
     = (case percent_match l of
          None \<Rightarrow> percent_complete (job_info st)
        | Some t \<Rightarrow> py_float t)"
  using percent_match_has_percent [of l]
  by (auto simp: sync_line_def Let_def split: option.splits)

lemma sync_fold_percent:
  "percent_complete (job_info (foldl sync_line st lines))
     = last (percent_complete (job_info st) # map py_float (List.map_filter percent_match lines))"
proof (induction lines arbitrary: st)
  case Nil
  show ?case by (simp add: List.map_filter_simps)
next
  case (Cons l ls)
  show ?case
    unfolding foldl_Cons Cons.IH [of "sync_line st l"] sync_line_percent
    by (simp add: List.map_filter_simps split: option.splits)
qed


lemma remove_line_percent:
  "percent_complete (job_info (remove_line st l))
     = (case percent_match l of
          None \<Rightarrow> percent_complete (job_info st)
        | Some t \<Rightarrow> py_float t)"
  using percent_match_has_percent [of l]
  by (auto simp: remove_line_def Let_def split: option.splits)

lemma remove_fold_percent:
  "percent_complete (job_info (foldl remove_line st lines))
     = last (percent_complete (job_info st) # map py_float (List.map_filter percent_match lines))"
proof (induction lines arbitrary: st)
  case Nil
  show ?case by (simp add: List.map_filter_simps)
next
  case (Cons l ls)
  show ?case
    unfolding foldl_Cons Cons.IH [of "remove_line st l"] remove_line_percent
    by (simp add: List.map_filter_simps split: option.splits)
qed


text \<open>
  Claim C5: after the copy, sync or remove loop has consumed the lines, \<open>percent_complete\<close>
  is the float of the last line on which the pattern matched (a number \<open>digits.digits\<close>
  followed by \<open> %,\<close> at the start of the line, see \<open>percent_match_iff\<close>), and the initial
  \<open>0\<close> when it matched on none. A line on which the pattern does not match, with or without
  a percent sign, leaves \<open>percent_complete\<close> as it was; the loop body has no failing branch.
\<close>

theorem percent_complete_last_match:
  "percent_complete (job_info (copy_loop lines))
     = last (0 # map py_float (List.map_filter percent_match lines))
   \<and> percent_complete (job_info (sync_loop lines))
     = last (0 # map py_float (List.map_filter percent_match lines))
   \<and> percent_complete (job_info (remove_loop lines))
     = last (0 # map py_float (List.map_filter percent_match lines))
   \<and> (percent_match l = None \<longrightarrow>
        percent_complete (job_info (copy_line cst l)) = percent_complete (job_info cst)
        \<and> percent_complete (job_info (sync_line sst l)) = percent_complete (job_info sst)
        \<and> percent_complete (job_info (remove_line rst l)) = percent_complete (job_info rst))"
  by (simp add: copy_loop_def sync_loop_def remove_loop_def copy_fold_percent sync_fold_percent
        remove_fold_percent copy_line_percent sync_line_percent remove_line_percent
        AzCopyJobInfo_init_def AzSyncJobInfo_init_def AzRemoveJobInfo_init_def)

theorem percent_complete_last_match_witness:
  "List.map_filter percent_match progress_lines = [''12.5'', ''80.25'']
   \<and> percent_complete (job_info (copy_loop progress_lines)) = 321 / 4
   \<and> percent_complete (job_info (sync_loop progress_lines)) = 321 / 4
   \<and> percent_complete (job_info (remove_loop progress_lines)) = 321 / 4
   \<and> percent_match ''about 50% left\<newline>'' = None
   \<and> percent_complete (job_info (copy_line (copy_loop [''12.5 %, 1 Done\<newline>''])
                                   ''about 50% left\<newline>''))
     = percent_complete (job_info (copy_loop [''12.5 %, 1 Done\<newline>'']))"
proof -
  have m: "List.map_filter percent_match progress_lines = [''12.5'', ''80.25'']"
    by code_simp
  have f: "py_float ''80.25'' = 321 / 4"
    by code_simp
  have n: "percent_match ''about 50% left\<newline>'' = None"
    by code_simp
  show ?thesis
    using percent_complete_last_match [of progress_lines "''about 50% left\<newline>''"
        "copy_loop [''12.5 %, 1 Done\<newline>'']"] m f n
    by simp
qed

subsection \<open>A failed run of remove\<close>

lemma AzClient_remove_run:
  assumes "AzRemoteSASLocation_str (expired_on_entry e) location = Inr l"
    and "execute_command e ([exe_to_use self, ''remove'', l]
           @ AzRemoveOptions_get_options_list remove_options) = (lines, failure)"
  shows "AzClient_remove e parse self location remove_options
    = (Spawn ([exe_to_use self, ''remove'', l] @ AzRemoveOptions_get_options_list remove_options)
         # map Echo lines,
       remove_finalize (parse (remove_except e location failure (job_info (remove_loop lines)))
                          (summary (remove_loop lines))))"
  using assms by (simp add: AzClient_remove_def Let_def)

text \<open>
  Claim C4, as the code has it. The location rendered when the command was built (its token
  was empty or not yet reported as expired), the line source raised after some lines, and
  the predicate reports the token as expired in the handler. Then the handler hands the
  summary parser a job info with \<open>error_msg = "SAS token is expired"\<close> and
  \<open>completed = False\<close>, and with a parser that leaves \<open>error_msg\<close> alone the decision after
  it gives one of three results: the call returns with \<open>completed = True\<close> when the status
  read before the failure is \<open>Completed\<close> or \<open>CompletedWithSkipped\<close>; otherwise it raises
  with \<open>completed = False\<close> and the message \<open>SAS token is expired; Removals failed = n\<close> for
  a positive failure counter \<open>n\<close>, or \<open>SAS token is expired; Error while removing data\<close>.
\<close>

theorem remove_expired_token_failure:
  assumes "AzRemoteSASLocation_str (expired_on_entry e) location = Inr l"
    and "execute_command e ([exe_to_use self, ''remove'', l]
           @ AzRemoveOptions_get_options_list remove_options) = (lines, Some text)"
    and "expired_on_failure e (sas_token location)"
    and "parse ((job_info (remove_loop lines))
                  \<lparr>error_msg := ''SAS token is expired'', completed := False\<rparr>)
           (summary (remove_loop lines)) = j"
    and "error_msg j = ''SAS token is expired''"
  shows "snd (AzClient_remove e parse self location remove_options)
    = (if final_job_status_msg j = ''Completed''
          \<or> final_job_status_msg j = ''CompletedWithSkipped''
       then Returned (j\<lparr>completed := True\<rparr>)
       else if 0 < number_of_removals_failed j
       then Raised (''SAS token is expired; Removals failed = ''
                    @ str_int (number_of_removals_failed j))
              (Some (j\<lparr>error_msg := ''SAS token is expired; Removals failed = ''
                                     @ str_int (number_of_removals_failed j),
                      completed := False\<rparr>))
       else Raised ''SAS token is expired; Error while removing data''
              (Some (j\<lparr>error_msg := ''SAS token is expired; Error while removing data'',
                      completed := False\<rparr>)))"
proof -
  have "remove_except e location (Some text) (job_info (remove_loop lines))
        = (job_info (remove_loop lines))
            \<lparr>error_msg := ''SAS token is expired'', completed := False\<rparr>"
    using assms(3) by (simp add: remove_except_def)
  then have "snd (AzClient_remove e parse self location remove_options) = remove_finalize j"
    using AzClient_remove_run [OF assms(1,2), of parse] assms(4) by simp
  then show ?thesis
    using assms(5) by (simp add: remove_finalize_def Let_def)
qed

lemma parsed_expired_remove:
  "get_remove_summary_info
     ((job_info (remove_loop failed_status_lines))
        \<lparr>error_msg := ''SAS token is expired'', completed := False\<rparr>)
     (summary (remove_loop failed_status_lines))
   = \<lparr>error_msg = ''SAS token is expired'', final_job_status_msg = ''CompletedWithErrors'',
      completed = False, percent_complete = 100, number_of_files_removed = 0,
      number_of_folders_removed = 0, total_number_of_removals = 0,
      number_of_removals_completed = 3, number_of_removals_failed = 2,
      number_of_removals_skipped = 0, total_bytes_removed = 0\<rparr>"
  by code_simp

theorem remove_expired_token_failure_witness:
  "expired_on_failure (demo_env failed_status_lines (Some ''exit status 1'') always_expired)
     (sas_token demo_remote)
   \<and> snd (AzClient_remove
            (demo_env failed_status_lines (Some ''exit status 1'') always_expired)
            get_remove_summary_info demo_client demo_remote demo_remove_options)
     = Raised ''SAS token is expired; Removals failed = 2''
         (Some \<lparr>error_msg = ''SAS token is expired; Removals failed = 2'',
                final_job_status_msg = ''CompletedWithErrors'', completed = False,
                percent_complete = 100, number_of_files_removed = 0,
                number_of_folders_removed = 0, total_number_of_removals = 0,
                number_of_removals_completed = 3, number_of_removals_failed = 2,
                number_of_removals_skipped = 0, total_bytes_removed = 0\<rparr>)"
proof -
  have r: "AzRemoteSASLocation_str
             (expired_on_entry
                (demo_env failed_status_lines (Some ''exit status 1'') always_expired))
             demo_remote
           = Inr ''https://acct.blob.core.windows.net/data/dir/?se=2030-01-01''"
    by (simp add: demo_env_def demo_remote_str)
  have x: "execute_command
             (demo_env failed_status_lines (Some ''exit status 1'') always_expired)
             ([exe_to_use demo_client, ''remove'',
               ''https://acct.blob.core.windows.net/data/dir/?se=2030-01-01'']
              @ AzRemoveOptions_get_options_list demo_remove_options)
           = (failed_status_lines, Some ''exit status 1'')"
    by (simp add: demo_env_def)
  have late: "expired_on_failure
                (demo_env failed_status_lines (Some ''exit status 1'') always_expired)
                (sas_token demo_remote)"
    by (simp add: demo_env_def always_expired_def)
  have n: "str_int 2 = ''2''"
    by (simp add: str_int_def)
  show ?thesis
    using remove_expired_token_failure
      [where parse = get_remove_summary_info, OF r x late parsed_expired_remove]
      late
    by (simp add: n)
qed

text \<open>
  Claim C4 as stated fails: when the line source raises at once and the token is reported as
  expired, the job info of the raising call has
  \<open>error_msg = "SAS token is expired; Error while removing data"\<close>, not the bare text.
\<close>

theorem remove_expired_token_message_counterexample:
  "expired_on_failure (demo_env [] (Some ''exit status 1'') always_expired)
     (sas_token demo_remote)
   \<and> AzClient_remove (demo_env [] (Some ''exit status 1'') always_expired)
       get_remove_summary_info demo_client demo_remote demo_remove_options
     = ([Spawn [''azcopy'', ''remove'',
                ''https://acct.blob.core.windows.net/data/dir/?se=2030-01-01'',
                ''--include-pattern'', ''*.tmp'']],
        Raised ''SAS token is expired; Error while removing data''
          (Some \<lparr>error_msg = ''SAS token is expired; Error while removing data'',
                 final_job_status_msg = [], completed = False, percent_complete = 0,
                 number_of_files_removed = 0, number_of_folders_removed = 0,
                 total_number_of_removals = 0, number_of_removals_completed = 0,
                 number_of_removals_failed = 0, number_of_removals_skipped = 0,
                 total_bytes_removed = 0\<rparr>))"
  by code_simp

subsection \<open>Listing\<close>

lemma list_consume_clean:
  "\<forall>l \<in> set lines. \<not> py_in ''AuthenticationFailed'' l \<Longrightarrow> list_consume lines = (lines, None)"
  by (induction lines) auto

lemma list_consume_first_failure:
  "\<forall>l \<in> set before. \<not> py_in ''AuthenticationFailed'' l \<Longrightarrow>
   py_in ''AuthenticationFailed'' line \<Longrightarrow>
   list_consume (before @ line # rest) = (before @ [line], Some line)"
  by (induction before) auto

lemma AzClient_list_run:
  assumes "AzRemoteSASLocation_str (expired_on_entry e) location = Inr l"
    and "execute_command e ([exe_to_use self, ''list'', l]
           @ AzListOptions_get_options_list list_options) = (lines, failure)"
    and "list_consume lines = (consumed, failed)"
  shows "AzClient_list e loads self location list_options
    = (Spawn ([exe_to_use self, ''list'', l] @ AzListOptions_get_options_list list_options)
         # map Echo consumed,
       (case failed of
          Some output_line \<Rightarrow>
            list_except output_line
              (AzListJobInfo_init\<lparr>error_msg := output_line, completed := False\<rparr>)
        | None \<Rightarrow>
            (case failure of
               Some text \<Rightarrow> list_except text AzListJobInfo_init
             | None \<Rightarrow>
                 Returned
                   ((list_decode loads list_options (map rstrip consumed)
                       (AzListJobInfo_init\<lparr>output_text :=
                          join [CHR 0x0A] (map rstrip consumed)\<rparr>))
                    \<lparr>completed := True, final_job_status_msg := ''Completed''\<rparr>))))"
  using assms by (simp add: AzClient_list_def Let_def)

text \<open>
  Claim C7: the first line of a listing that contains \<open>AuthenticationFailed\<close> makes the call
  raise with that line as its message. The job info has that line as \<open>error_msg\<close>,
  \<open>completed = False\<close> and an empty \<open>output_text\<close>; the lines echoed are those up to and
  including that line, so no later line is consumed, whatever follows it in the stream.
\<close>

theorem list_authentication_failed:
  assumes "AzRemoteSASLocation_str (expired_on_entry e) location = Inr l"
    and "execute_command e ([exe_to_use self, ''list'', l]
           @ AzListOptions_get_options_list list_options) = (before @ line # rest, failure)"
    and "\<forall>x \<in> set before. \<not> py_in ''AuthenticationFailed'' x"
    and "py_in ''AuthenticationFailed'' line"
  shows "AzClient_list e loads self location list_options
    = (Spawn ([exe_to_use self, ''list'', l] @ AzListOptions_get_options_list list_options)
         # map Echo (before @ [line]),
       Raised line
         (Some \<lparr>error_msg = line, final_job_status_msg = '''', completed = False,
                output_text = '''', items = []\<rparr>))"
proof -
  have ne: "line \<noteq> []"
    using py_in_nonempty [OF assms(4)] by simp
  show ?thesis
    using AzClient_list_run [OF assms(1,2) list_consume_first_failure [OF assms(3,4)], of loads] ne
    by (simp add: list_except_def AzListJobInfo_init_def)
qed

theorem list_authentication_failed_witness:
  "AzClient_list (demo_env auth_failed_lines None never_expired) json_loads demo_client
     demo_remote demo_list_options
   = ([Spawn [''azcopy'', ''list'',
              ''https://acct.blob.core.windows.net/data/dir/?se=2030-01-01'',
              ''--output-type'', ''json''],
       Echo ''INFO: listing\<newline>'', Echo ''RESPONSE 403: AuthenticationFailed\<newline>''],
      Raised ''RESPONSE 403: AuthenticationFailed\<newline>''
        (Some \<lparr>error_msg = ''RESPONSE 403: AuthenticationFailed\<newline>'',
               final_job_status_msg = '''', completed = False, output_text = '''',
               items = []\<rparr>))"
proof -
  have r: "AzRemoteSASLocation_str
             (expired_on_entry (demo_env auth_failed_lines None never_expired)) demo_remote
           = Inr ''https://acct.blob.core.windows.net/data/dir/?se=2030-01-01''"
    by (simp add: demo_env_def demo_remote_str)
  have x: "execute_command (demo_env auth_failed_lines None never_expired)
             ([exe_to_use demo_client, ''list'',
               ''https://acct.blob.core.windows.net/data/dir/?se=2030-01-01'']
              @ AzListOptions_get_options_list demo_list_options)
           = ([''INFO: listing\<newline>''] @ ''RESPONSE 403: AuthenticationFailed\<newline>''
                # [''never read\<newline>''], None)"
    by (simp add: demo_env_def auth_failed_lines_def)
  have b: "\<forall>x \<in> set [''INFO: listing\<newline>'']. \<not> py_in ''AuthenticationFailed'' x"
    by code_simp
  have a: "py_in ''AuthenticationFailed'' ''RESPONSE 403: AuthenticationFailed\<newline>''"
    by code_simp
  have o: "AzListOptions_get_options_list demo_list_options = [''--output-type'', ''json'']"
    by (simp add: AzListOptions_get_options_list_def demo_list_options_def)
  have c: "exe_to_use demo_client = ''azcopy''"
    by (simp add: demo_client_def)
  show ?thesis
    using list_authentication_failed [where loads = json_loads, OF r x b a]
    by (simp add: o c)
qed

lemma list_item_acc:
  "list_item loads acc raw
     = (case list_item loads [] raw of
          Continue xs \<Rightarrow> Continue (acc @ xs)
        | Unexpected \<Rightarrow> Unexpected)"
  by (simp add: list_item_def Let_def split: loaded.splits option.splits json.splits)

lemma object_shape:
  "(line \<noteq> [] \<and> startswith line ''{'' \<and> endswith line ''}'')
     = (startswith line ''{'' \<and> endswith line ''}'')"
  by (auto simp: startswith_def)

lemma list_item_unexpected:
  "(list_item loads [] raw = Unexpected) = unexpected_line loads raw"
proof (cases "startswith (strip raw) ''{'' \<and> endswith (strip raw) ''}''")
  case False
  then show ?thesis
    by (auto simp: unexpected_line_def list_item_def Let_def)
next
  case shape: True
  show ?thesis
  proof (cases "loads (strip raw)")
    case (Loaded v)
    show ?thesis
    proof (cases v)
      case (JObject obj)
      show ?thesis
      proof (cases "dict_get obj ''MessageContent''")
        case None
        with shape Loaded JObject show ?thesis
          by (simp add: unexpected_line_def list_item_def Let_def object_shape)
      next
        case (Some content)
        with shape Loaded JObject show ?thesis
          by (cases content; cases "loads (case content of JString text \<Rightarrow> text | _ \<Rightarrow> [])")
            (simp_all add: unexpected_line_def list_item_def Let_def object_shape)
      qed
    qed (simp_all add: shape Loaded unexpected_line_def list_item_def Let_def object_shape)
  qed (simp_all add: shape unexpected_line_def list_item_def Let_def object_shape)
qed

lemma list_item_spec:
  assumes "loads [] = JSONDecodeError"
  shows "unexpected_line loads raw
         \<or> list_item loads [] raw = Continue (spec_line_items loads raw)"
  unfolding unexpected_line_def list_item_def spec_line_items_def Let_def object_shape
  using assms by (simp split: loaded.split option.split json.split)

lemma list_items_acc:
  "loads [] = JSONDecodeError \<Longrightarrow>
   list_items loads acc lines
     = (if \<exists>raw \<in> set lines. unexpected_line loads raw then None
        else Some (acc @ concat (map (spec_line_items loads) lines)))"
proof (induction lines arbitrary: acc)
  case Nil
  show ?case by simp
next
  case (Cons raw rest)
  show ?case
  proof (cases "unexpected_line loads raw")
    case True
    then have "list_item loads acc raw = Unexpected"
      using list_item_unexpected [of loads raw] by (simp add: list_item_acc [of loads acc raw])
    with True show ?thesis by simp
  next
    case False
    then have "list_item loads acc raw = Continue (acc @ spec_line_items loads raw)"
      using list_item_spec [where loads = loads and raw = raw, OF Cons.prems] by (simp add: list_item_acc [of loads acc raw])
    with False show ?thesis
      by (simp add: Cons.IH [OF Cons.prems])
  qed
qed

text \<open>
  Claim C6, as the code has it. For a listing that returns with \<open>output_type = "json"\<close>,
  \<open>items\<close> is the concatenation, in order, of what each output line contributes on its own
  (\<open>spec_line_items\<close>: a \<open>ListObject\<close> contributes its \<open>MessageContent\<close> decoded again, when
  that is a string that decodes; any other object but \<open>EndOfJob\<close> contributes itself;
  \<open>EndOfJob\<close> and lines that are no complete JSON object contribute nothing), unless some
  line leaves the loop by an exception other than \<open>JSONDecodeError\<close> (\<open>unexpected_line\<close>):
  \<open>json.loads\<close> raises one on the line or on the text of its \<open>MessageContent\<close>, or the line
  is a \<open>ListObject\<close> whose \<open>MessageContent\<close> is a number other than zero, \<open>true\<close>, or a
  non-empty array or object. The assignment to \<open>items\<close> is then never reached and \<open>items\<close>
  stays empty, whatever the other lines hold. The decoder is any function that raises
  \<open>JSONDecodeError\<close> on the empty text, as \<open>json.loads\<close> does. The concrete run that follows
  has the line of the specification, which yields the single item \<open>{"name": "a.txt"}\<close>.
\<close>

theorem list_items_per_line:
  assumes "AzRemoteSASLocation_str (expired_on_entry e) location = Inr l"
    and "execute_command e ([exe_to_use self, ''list'', l]
           @ AzListOptions_get_options_list list_options) = (lines, None)"
    and "\<forall>x \<in> set lines. \<not> py_in ''AuthenticationFailed'' x"
    and "output_type list_options = ''json''"
    and "loads [] = JSONDecodeError"
  shows "returned_items (snd (AzClient_list e loads self location list_options))
    = Some (if \<exists>raw \<in> set (map rstrip lines). unexpected_line loads raw then []
            else concat (map (spec_line_items loads) (map rstrip lines)))"
  using AzClient_list_run [OF assms(1,2) list_consume_clean [OF assms(3)], of loads] assms(4)
    list_items_acc [where loads = loads and acc = "[]" and lines = "map rstrip lines", OF assms(5)]
  by (simp add: returned_items_def list_decode_def AzListJobInfo_init_def)

lemma demo_list_options_list:
  "AzListOptions_get_options_list demo_list_options = [''--output-type'', ''json'']"
  by (simp add: AzListOptions_get_options_list_def demo_list_options_def)

theorem list_items_per_line_witness:
  "returned_items
     (snd (AzClient_list
             (demo_env [list_object_line, end_of_job_line, info_line, ''INFO: done\<newline>''] None
                never_expired)
             json_loads demo_client demo_remote demo_list_options))
   = Some [JObject [(''name'', JString ''a.txt'')],
           JObject [(''MessageType'', JString ''Info''),
                    (''MessageContent'', JString ''scanning'')]]
   \<and> returned_items
     (snd (AzClient_list (demo_env [list_object_line] None never_expired)
             json_loads demo_client demo_remote demo_list_options))
   = Some [JObject [(''name'', JString ''a.txt'')]]"
proof -
  have r: "AzRemoteSASLocation_str (expired_on_entry (demo_env ls None never_expired))
             demo_remote
           = Inr ''https://acct.blob.core.windows.net/data/dir/?se=2030-01-01''" for ls
    by (simp add: demo_env_def demo_remote_str)
  have x: "execute_command (demo_env ls None never_expired)
             ([exe_to_use demo_client, ''list'',
               ''https://acct.blob.core.windows.net/data/dir/?se=2030-01-01'']
              @ AzListOptions_get_options_list demo_list_options)
           = (ls, None)" for ls
    by (simp add: demo_env_def)
  have a: "\<forall>x \<in> set [list_object_line, end_of_job_line, info_line, ''INFO: done\<newline>''].
             \<not> py_in ''AuthenticationFailed'' x"
    by code_simp
  have a': "\<forall>x \<in> set [list_object_line]. \<not> py_in ''AuthenticationFailed'' x"
    by code_simp
  have t: "output_type demo_list_options = ''json''"
    by (simp add: demo_list_options_def)
  have e: "json_loads [] = JSONDecodeError"
    by code_simp
  have v: "(if \<exists>raw \<in> set (map rstrip
                 [list_object_line, end_of_job_line, info_line, ''INFO: done\<newline>'']).
                unexpected_line json_loads raw then []
            else concat (map (spec_line_items json_loads)
                   (map rstrip [list_object_line, end_of_job_line, info_line,
                                ''INFO: done\<newline>''])))
           = [JObject [(''name'', JString ''a.txt'')],
              JObject [(''MessageType'', JString ''Info''),
                       (''MessageContent'', JString ''scanning'')]]"
    by code_simp
  have v': "(if \<exists>raw \<in> set (map rstrip [list_object_line]).
                unexpected_line json_loads raw then []
            else concat (map (spec_line_items json_loads) (map rstrip [list_object_line])))
           = [JObject [(''name'', JString ''a.txt'')]]"
    by code_simp
  show ?thesis
    using list_items_per_line [where loads = json_loads, OF r x a t e]
      list_items_per_line [where loads = json_loads, OF r x a' t e]
    unfolding v v' by simp
qed

text \<open>
  Claim C6 as stated fails: an \<open>Info\<close> object followed by a \<open>ListObject\<close> whose
  \<open>MessageContent\<close> is the number 5 gives a listing with no item at all, although the
  \<open>Info\<close> object is neither \<open>ListObject\<close> nor \<open>EndOfJob\<close>.
\<close>

theorem list_items_lost_counterexample:
  "json_loads info_line
     = Loaded (JObject [(''MessageType'', JString ''Info''),
                        (''MessageContent'', JString ''scanning'')])
   \<and> json_loads numeric_content_line
     = Loaded (JObject [(''MessageType'', JString ''ListObject''), (''MessageContent'', JInt 5)])
   \<and> \<not> unexpected_line json_loads info_line
   \<and> unexpected_line json_loads numeric_content_line
   \<and> returned_items
       (snd (AzClient_list (demo_env [info_line, numeric_content_line] None never_expired)
               json_loads demo_client demo_remote demo_list_options))
     = Some []"
  by code_simp

end
